theory Spec2Isabelle
  imports Main "HOL-Library.Word"
begin

section \<open>Errors and dynamically typed causes\<close>

text \<open>
  A Go \<open>error\<close> value is modelled by its dynamic type. Three dynamic types occur in
  \<open>main.go\<close>: the provider's \<open>*googleapi.Error\<close>, the result of
  \<open>fmt.Errorf(".. %w", err)\<close>, and any other error. Of a \<open>*googleapi.Error\<close> the
  program reads the fields \<open>Code\<close> and \<open>Message\<close> and calls the method \<open>Error()\<close>;
  the text that method returns is computed by the provider's library from further fields
  and is carried here as \<open>ErrorText\<close>. The pointer is taken to be non-nil.
\<close>

datatype go_error =
    GoogleapiError (Code: int) (Message: string) (ErrorText: string)
  | OtherError string
  | WrapError string go_error

fun Error :: "go_error \<Rightarrow> string" where
  "Error (GoogleapiError c m t) = t"
| "Error (OtherError s) = s"
| "Error (WrapError s e) = s"

text \<open>\<open>fmt.Errorf(prefix + "%w", err)\<close>: the message is fixed when the error is built.\<close>

definition Errorf_w :: "string \<Rightarrow> go_error \<Rightarrow> go_error" where
  "Errorf_w prefix err = WrapError (prefix @ Error err) err"

text \<open>
  The \<open>err interface{}\<close> argument of \<open>writeErrorResponse\<close>. Besides errors and strings,
  the values \<open>nil\<close>, booleans and integers stand for the dynamic types that reach the
  \<open>default\<close> branch of the type switch.
\<close>

datatype cause =
    CauseError go_error
  | CauseString string
  | CauseNil
  | CauseBool bool
  | CauseInt int

section \<open>Formatting of integers\<close>

text \<open>The byte \<open>'0' + d\<close>.\<close>

definition digit_char :: "nat \<Rightarrow> char" where
  "digit_char d = char_of (of_char (CHR ''0'') + d)"

function digits10 :: "nat \<Rightarrow> string" where
  "digits10 n = (if n < 10 then [digit_char n] else digits10 (n div 10) @ [digit_char (n mod 10)])"
  by pat_completeness auto
termination
  by (relation "measure id") auto

declare digits10.simps [simp del]

text \<open>The verb \<open>%d\<close> of \<open>fmt.Sprintf\<close> on an \<open>int\<close>.\<close>

definition Sprintf_d :: "int \<Rightarrow> string" where
  "Sprintf_d i = (if i < 0 then CHR ''-'' # digits10 (nat (- i)) else digits10 (nat i))"

text \<open>The verb \<open>%v\<close>: a string prints as itself, an error as its \<open>Error()\<close> text.\<close>

fun Sprintf_v :: "cause \<Rightarrow> string" where
  "Sprintf_v CauseNil = ''<nil>''"
| "Sprintf_v (CauseBool b) = (if b then ''true'' else ''false'')"
| "Sprintf_v (CauseInt i) = Sprintf_d i"
| "Sprintf_v (CauseString s) = s"
| "Sprintf_v (CauseError e) = Error e"

section \<open>Reason phrases\<close>

text \<open>\<open>http.StatusText\<close> of \<open>net/http\<close>: the reason phrase of a status code, empty when unknown.\<close>

definition reason_phrases :: "(int \<times> string) list" where
  "reason_phrases =
    [(100, ''Continue''), (101, ''Switching Protocols''), (102, ''Processing''),
     (103, ''Early Hints''),
     (200, ''OK''), (201, ''Created''), (202, ''Accepted''),
     (203, ''Non-Authoritative Information''), (204, ''No Content''),
     (205, ''Reset Content''), (206, ''Partial Content''), (207, ''Multi-Status''),
     (208, ''Already Reported''), (226, ''IM Used''),
     (300, ''Multiple Choices''), (301, ''Moved Permanently''), (302, ''Found''),
     (303, ''See Other''), (304, ''Not Modified''), (305, ''Use Proxy''),
     (307, ''Temporary Redirect''), (308, ''Permanent Redirect''),
     (400, ''Bad Request''), (401, ''Unauthorized''), (402, ''Payment Required''),
     (403, ''Forbidden''), (404, ''Not Found''), (405, ''Method Not Allowed''),
     (406, ''Not Acceptable''), (407, ''Proxy Authentication Required''),
     (408, ''Request Timeout''), (409, ''Conflict''), (410, ''Gone''),
     (411, ''Length Required''), (412, ''Precondition Failed''),
     (413, ''Request Entity Too Large''), (414, ''Request URI Too Long''),
     (415, ''Unsupported Media Type''), (416, ''Requested Range Not Satisfiable''),
     (417, ''Expectation Failed''), (418, ''I'm a teapot''),
     (421, ''Misdirected Request''), (422, ''Unprocessable Entity''), (423, ''Locked''),
     (424, ''Failed Dependency''), (425, ''Too Early''), (426, ''Upgrade Required''),
     (428, ''Precondition Required''), (429, ''Too Many Requests''),
     (431, ''Request Header Fields Too Large''),
     (451, ''Unavailable For Legal Reasons''),
     (500, ''Internal Server Error''), (501, ''Not Implemented''), (502, ''Bad Gateway''),
     (503, ''Service Unavailable''), (504, ''Gateway Timeout''),
     (505, ''HTTP Version Not Supported''), (506, ''Variant Also Negotiates''),
     (507, ''Insufficient Storage''), (508, ''Loop Detected''), (510, ''Not Extended''),
     (511, ''Network Authentication Required'')]"

definition StatusText :: "int \<Rightarrow> string" where
  "StatusText code = (case map_of reason_phrases code of Some s \<Rightarrow> s | None \<Rightarrow> [])"

section \<open>Clock readings and the RFC 3339 layout\<close>

text \<open>
  A reading of \<open>time.Now()\<close>, as the civil date, the clock and the zone offset (seconds
  east of UTC) that \<open>Format\<close> prints.
\<close>

record time =
  Year :: int
  Month :: nat
  Day :: nat
  Hour :: nat
  Minute :: nat
  Second :: nat
  ZoneOffset :: int

text \<open>\<open>appendInt\<close> of package \<open>time\<close>: sign, then the decimal digits padded with zeros.\<close>

definition appendInt :: "int \<Rightarrow> nat \<Rightarrow> string" where
  "appendInt x width =
     (let ds = digits10 (nat \<bar>x\<bar>)
      in (if x < 0 then ''-'' else []) @ replicate (width - length ds) (CHR ''0'') @ ds)"

text \<open>
  \<open>t.Format(time.RFC3339)\<close>, layout \<open>2006-01-02T15:04:05Z07:00\<close>. Go divides the offset
  by 60 rounding towards zero.
\<close>

definition quot :: "int \<Rightarrow> int \<Rightarrow> int" where
  "quot a b = sgn a * sgn b * (\<bar>a\<bar> div \<bar>b\<bar>)"

definition Format_RFC3339 :: "time \<Rightarrow> string" where
  "Format_RFC3339 t =
     appendInt (Year t) 4 @ ''-'' @ appendInt (int (Month t)) 2 @ ''-'' @
     appendInt (int (Day t)) 2 @ ''T'' @ appendInt (int (Hour t)) 2 @ '':'' @
     appendInt (int (Minute t)) 2 @ '':'' @ appendInt (int (Second t)) 2 @
     (if ZoneOffset t = 0 then ''Z''
      else let zone = quot (ZoneOffset t) 60
           in (if zone < 0 then ''-'' else ''+'') @
              appendInt (\<bar>zone\<bar> div 60) 2 @ '':'' @ appendInt (\<bar>zone\<bar> mod 60) 2)"

section \<open>Data model\<close>

text \<open>The struct \<open>SQLInstancesData\<close> of \<open>main.go\<close>.\<close>

record SQLInstancesData =
  Name :: string
  DatabaseVersion :: string
  Region :: string
  State :: string
  Tier :: string

text \<open>
  The JSON object that \<open>encoding/json\<close> writes for a \<open>SQLInstancesData\<close>: one member per
  field, in the order of the fields, named by the struct tags.
\<close>

definition json_SQLInstancesData :: "SQLInstancesData \<Rightarrow> (string \<times> string) list" where
  "json_SQLInstancesData d =
     [(''name'', Name d), (''database_version'', DatabaseVersion d), (''region'', Region d),
      (''state'', State d), (''tier'', Tier d)]"

text \<open>
  The provider's \<open>sqladmin.DatabaseInstance\<close> and \<open>sqladmin.Settings\<close>, with the fields the
  program reads. \<open>Settings\<close> is a pointer and may be nil.
\<close>

record Settings =
  Settings_Tier :: string

record DatabaseInstance =
  Instance_Name :: string
  Instance_DatabaseVersion :: string
  Instance_Region :: string
  Instance_State :: string
  Instance_Settings :: "Settings option"

text \<open>
  The values \<open>json.Unmarshal\<close> stores in an \<open>interface{}\<close>: nil, bool, float64 (its 64
  bits), string, \<open>[]interface{}\<close> and \<open>map[string]interface{}\<close>.
\<close>

datatype json_value =
    JsonNil
  | JsonBool bool
  | JsonFloat64 "64 word"
  | JsonString string
  | JsonSlice "json_value list"
  | JsonMap "(string \<times> json_value) list"

text \<open>A request: its method and what \<open>io.ReadAll(r.Body)\<close> returns.\<close>

record request =
  Method :: string
  Body :: "go_error + string"

text \<open>The calls to the provider's client library, with their arguments.\<close>

datatype call =
    CallNewService string
  | CallGet string string
  | CallPatch string string string

text \<open>
  The environment of a request: the process configuration, the decoder
  \<open>json.Unmarshal\<close> into a \<open>map[string]interface{}\<close>, the provider and the clock. What the
  provider answers to a call, and what the clock reads, may depend on the calls made so
  far in the request (the last of them being the call answered). The type \<open>'op\<close> is the
  provider's answer to a patch.
\<close>

record 'op env =
  projectID :: string
  instanceID :: string
  Unmarshal :: "string \<Rightarrow> go_error + (string \<rightharpoonup> json_value)"
  NewService :: "call list \<Rightarrow> go_error option"
  InstancesGet :: "call list \<Rightarrow> go_error + DatabaseInstance"
  InstancesPatch :: "call list \<Rightarrow> go_error + 'op"
  Now :: "call list \<Rightarrow> time"

text \<open>
  A response: the header, the status given to \<open>WriteHeader\<close> and the
  \<open>map[string]interface{}\<close> that is encoded as the body.
\<close>

datatype 'op field =
    FieldInt int
  | FieldString string
  | FieldInstance SQLInstancesData
  | FieldOperation 'op

record 'op response =
  Content_Type :: string
  http_status :: int
  body :: "string \<rightharpoonup> 'op field"

text \<open>A handler writes a response, or panics and writes none.\<close>

datatype 'op outcome = Panicked | Responded "'op response"

datatype 'a result = Panics | Fails go_error | Returns 'a

section \<open>The response formatter\<close>

definition writeSuccessResponse :: "time \<Rightarrow> int \<Rightarrow> string \<Rightarrow> 'op field \<Rightarrow> 'op response" where
  "writeSuccessResponse now statusCode message data =
     \<lparr>Content_Type = ''application/json'',
      http_status = statusCode,
      body = [''data'' \<mapsto> data,
              ''status_code'' \<mapsto> FieldInt statusCode,
              ''status_text'' \<mapsto> FieldString (StatusText statusCode),
              ''message'' \<mapsto> FieldString message,
              ''timestamp'' \<mapsto> FieldString (Format_RFC3339 now)]\<rparr>"

definition writeErrorResponse :: "time \<Rightarrow> int \<Rightarrow> string \<Rightarrow> cause \<Rightarrow> 'op response" where
  "writeErrorResponse now statusCode message err =
     (let (errorType, errorDescription) =
        (case err of
           CauseError (GoogleapiError c m t) \<Rightarrow> (''googleapi_'' @ Sprintf_d c, m)
         | CauseError e \<Rightarrow> (''internal_error'', Error e)
         | CauseString e \<Rightarrow> (''internal_error'', e)
         | e \<Rightarrow> (''unknown_error'', Sprintf_v e))
      in \<lparr>Content_Type = ''application/json'',
          http_status = statusCode,
          body = [''status_code'' \<mapsto> FieldInt statusCode,
                  ''status_text'' \<mapsto> FieldString (StatusText statusCode),
                  ''message'' \<mapsto> FieldString message,
                  ''timestamp'' \<mapsto> FieldString (Format_RFC3339 now),
                  ''error_type'' \<mapsto> FieldString errorType,
                  ''error_description'' \<mapsto> FieldString errorDescription]\<rparr>)"

section \<open>The status reader\<close>

definition checkStatusInstances ::
  "'op env \<Rightarrow> string \<Rightarrow> string \<Rightarrow> call list \<Rightarrow> SQLInstancesData result \<times> call list" where
  "checkStatusInstances env project inst t =
     (let t1 = t @ [CallNewService ''service_account.json'']
      in case NewService env t1 of
           Some err \<Rightarrow> (Fails (Errorf_w ''failed to find Service Account: '' err), t1)
         | None \<Rightarrow>
             (let t2 = t1 @ [CallGet project inst]
              in case InstancesGet env t2 of
                   Inl err \<Rightarrow>
                     (Fails (Errorf_w ''failed to get instance details, instances not found.: '' err), t2)
                 | Inr instance \<Rightarrow>
                     (case Instance_Settings instance of
                        None \<Rightarrow> (Panics, t2)
                      | Some settings \<Rightarrow>
                          (Returns \<lparr>Name = Instance_Name instance,
                                    DatabaseVersion = Instance_DatabaseVersion instance,
                                    Region = Instance_Region instance,
                                    State = Instance_State instance,
                                    Tier = Settings_Tier settings\<rparr>, t2))))"

section \<open>The handlers\<close>

text \<open>\<open>payload[key]\<close>: a missing key reads as the nil interface.\<close>

definition index_map :: "(string \<rightharpoonup> json_value) \<Rightarrow> string \<Rightarrow> json_value" where
  "index_map payload key = (case payload key of None \<Rightarrow> JsonNil | Some v \<Rightarrow> v)"

text \<open>The type assertion \<open>v.(string)\<close> in its two-valued form.\<close>

fun assert_string :: "json_value \<Rightarrow> string \<times> bool" where
  "assert_string (JsonString s) = (s, True)"
| "assert_string v = ([], False)"

definition startInstanceHandler :: "'op env \<Rightarrow> request \<Rightarrow> 'op outcome \<times> call list" where
  "startInstanceHandler env r =
     (if Method r \<noteq> ''POST''
      then (Responded (writeErrorResponse (Now env []) 405 ''Method not allowed.''
              (CauseString [])), [])
      else
        (let t1 = [CallNewService ''service_account.json'']
         in case NewService env t1 of
              Some err \<Rightarrow>
                (Responded (writeErrorResponse (Now env t1) 401 ''Service Account not found.''
                   (CauseError err)), t1)
            | None \<Rightarrow>
                (case checkStatusInstances env (projectID env) (instanceID env) t1 of
                   (Panics, t2) \<Rightarrow> (Panicked, t2)
                 | (Fails err, t2) \<Rightarrow>
                     (Responded (writeErrorResponse (Now env t2) 500 ''Instances not found.''
                        (CauseString (Error err))), t2)
                 | (Returns _, t2) \<Rightarrow>
                     (case Body r of
                        Inl err \<Rightarrow>
                          (Responded (writeErrorResponse (Now env t2) 400
                             ''Failed to read request body.'' (CauseError err)), t2)
                      | Inr bytes \<Rightarrow>
                          (case Unmarshal env bytes of
                             Inl err \<Rightarrow>
                               (Responded (writeErrorResponse (Now env t2) 400
                                  ''Invalid JSON format.'' (CauseError err)), t2)
                           | Inr payload \<Rightarrow>
                               (let (activationPolicy, ok) =
                                      assert_string (index_map payload ''ActivationPolicy'')
                                in if \<not> ok \<or> (activationPolicy \<noteq> ''ALWAYS'' \<and> activationPolicy \<noteq> ''NEVER'')
                                   then (Responded (writeErrorResponse (Now env t2) 400
                                           ''Invalid value for ActivationPolicy. Must be 'ALWAYS' or 'NEVER'.''
                                           (CauseString [])), t2)
                                   else
                                     (let t3 = t2 @ [CallPatch (projectID env) (instanceID env)
                                                       activationPolicy]
                                      in case InstancesPatch env t3 of
                                           Inl err \<Rightarrow>
                                             (Responded (writeErrorResponse (Now env t3) 500
                                                ''Failed to start instance.'' (CauseError err)), t3)
                                         | Inr operation \<Rightarrow>
                                             (Responded (writeSuccessResponse (Now env t3) 200
                                                ''Instance successfully started. Check console for details.''
                                                (FieldOperation operation)), t3))))))))"

definition stopInstancesHandler :: "'op env \<Rightarrow> request \<Rightarrow> 'op outcome \<times> call list" where
  "stopInstancesHandler env r =
     (if Method r \<noteq> ''POST''
      then (Responded (writeErrorResponse (Now env []) 405 ''Method not allowed.''
              (CauseString [])), [])
      else
        (let t1 = [CallNewService ''service_account.json'']
         in case NewService env t1 of
              Some err \<Rightarrow>
                (Responded (writeErrorResponse (Now env t1) 401 ''Service Account not found.''
                   (CauseError err)), t1)
            | None \<Rightarrow>
                (case checkStatusInstances env (projectID env) (instanceID env) t1 of
                   (Panics, t2) \<Rightarrow> (Panicked, t2)
                 | (Fails err, t2) \<Rightarrow>
                     (Responded (writeErrorResponse (Now env t2) 500 ''Instances not found.''
                        (CauseString (Error err))), t2)
                 | (Returns status, t2) \<Rightarrow>
                     if State status \<noteq> ''RUNNABLE''
                     then (Responded (writeErrorResponse (Now env t2) 400
                             (''Instance currently in '' @ State status @ '' state.'')
                             (CauseString [])), t2)
                     else
                       (case Body r of
                          Inl err \<Rightarrow>
                            (Responded (writeErrorResponse (Now env t2) 400
                               ''Failed to read request body.'' (CauseError err)), t2)
                        | Inr bytes \<Rightarrow>
                            (case Unmarshal env bytes of
                               Inl err \<Rightarrow>
                                 (Responded (writeErrorResponse (Now env t2) 400
                                    ''Invalid JSON format.'' (CauseError err)), t2)
                             | Inr payload \<Rightarrow>
                                 (let (activationPolicy, ok) =
                                        assert_string (index_map payload ''ActivationPolicy'')
                                  in if \<not> ok \<or> (activationPolicy \<noteq> ''ALWAYS'' \<and> activationPolicy \<noteq> ''NEVER'')
                                     then (Responded (writeErrorResponse (Now env t2) 400
                                             ''Invalid value for ActivationPolicy. Must be 'ALWAYS' or 'NEVER'.''
                                             (CauseString [])), t2)
                                     else
                                       (let t3 = t2 @ [CallPatch (projectID env) (instanceID env)
                                                         activationPolicy]
                                        in case InstancesPatch env t3 of
                                             Inl err \<Rightarrow>
                                               (Responded (writeErrorResponse (Now env t3) 500
                                                  ''Failed to stop instance.'' (CauseError err)), t3)
                                           | Inr operation \<Rightarrow>
                                               (Responded (writeSuccessResponse (Now env t3) 200
                                                  ''Instance successfully stopped. Check console for details.''
                                                  (FieldOperation operation)), t3))))))))"

definition checkInstancesHandler :: "'op env \<Rightarrow> request \<Rightarrow> 'op outcome \<times> call list" where
  "checkInstancesHandler env r =
     (if Method r \<noteq> ''GET''
      then (Responded (writeErrorResponse (Now env []) 405 ''Method not allowed.''
              (CauseString [])), [])
      else
        (let t1 = [CallNewService ''service_account.json'']
         in case NewService env t1 of
              Some err \<Rightarrow>
                (Responded (writeErrorResponse (Now env t1) 401 ''Service Account not found.''
                   (CauseError err)), t1)
            | None \<Rightarrow>
                (case checkStatusInstances env (projectID env) (instanceID env) t1 of
                   (Panics, t2) \<Rightarrow> (Panicked, t2)
                 | (Fails err, t2) \<Rightarrow>
                     (Responded (writeErrorResponse (Now env t2) 500 ''Instances not found.''
                        (CauseString (Error err))), t2)
                 | (Returns instance, t2) \<Rightarrow>
                     (Responded (writeSuccessResponse (Now env t2) 200
                        ''Successfully fetch instances detail.''
                        (FieldInstance \<lparr>Name = Name instance,
                                         DatabaseVersion = DatabaseVersion instance,
                                         Region = Region instance,
                                         State = State instance,
                                         Tier = Tier instance\<rparr>)), t2))))"

section \<open>Vocabulary of the properties\<close>

subsection \<open>Timestamps of RFC 3339\<close>

text \<open>
  A recogniser for \<open>date-time\<close> of RFC 3339, section 5.6, without fraction of a second and
  with the upper-case letters \<open>T\<close> and \<open>Z\<close>: four digits of year, month, day of the month
  (within the month's length), hour, minute, second, then \<open>Z\<close> or a numeric offset.
\<close>

definition is_digit :: "char \<Rightarrow> bool" where
  "is_digit c = (48 \<le> (of_char c :: nat) \<and> (of_char c :: nat) \<le> 57)"

definition digit_val :: "char \<Rightarrow> nat" where
  "digit_val c = of_char c - 48"

definition num2 :: "char \<Rightarrow> char \<Rightarrow> nat" where
  "num2 a b = 10 * digit_val a + digit_val b"

definition leap_year :: "nat \<Rightarrow> bool" where
  "leap_year y = (y mod 4 = 0 \<and> (y mod 100 \<noteq> 0 \<or> y mod 400 = 0))"

definition days_in_month :: "nat \<Rightarrow> nat \<Rightarrow> nat" where
  "days_in_month y m =
     (if m = 2 then (if leap_year y then 29 else 28)
      else if m = 4 \<or> m = 6 \<or> m = 9 \<or> m = 11 then 30 else 31)"

fun is_time_offset :: "string \<Rightarrow> bool" where
  "is_time_offset [z] = (z = CHR ''Z'')"
| "is_time_offset [s, h1, h2, c, m1, m2] =
     ((s = CHR ''+'' \<or> s = CHR ''-'') \<and> is_digit h1 \<and> is_digit h2 \<and> c = CHR '':'' \<and>
      is_digit m1 \<and> is_digit m2 \<and> num2 h1 h2 \<le> 23 \<and> num2 m1 m2 \<le> 59)"
| "is_time_offset _ = False"

fun is_RFC3339 :: "string \<Rightarrow> bool" where
  "is_RFC3339 (y1 # y2 # y3 # y4 # d1 # m1 # m2 # d2 # a1 # a2 # t # h1 # h2 # c1 # n1 # n2 #
               c2 # s1 # s2 # offset) =
     (is_digit y1 \<and> is_digit y2 \<and> is_digit y3 \<and> is_digit y4 \<and> d1 = CHR ''-'' \<and>
      is_digit m1 \<and> is_digit m2 \<and> d2 = CHR ''-'' \<and> is_digit a1 \<and> is_digit a2 \<and>
      t = CHR ''T'' \<and> is_digit h1 \<and> is_digit h2 \<and> c1 = CHR '':'' \<and>
      is_digit n1 \<and> is_digit n2 \<and> c2 = CHR '':'' \<and> is_digit s1 \<and> is_digit s2 \<and>
      1 \<le> num2 m1 m2 \<and> num2 m1 m2 \<le> 12 \<and> 1 \<le> num2 a1 a2 \<and>
      num2 a1 a2 \<le> days_in_month (100 * num2 y1 y2 + num2 y3 y4) (num2 m1 m2) \<and>
      num2 h1 h2 \<le> 23 \<and> num2 n1 n2 \<le> 59 \<and> num2 s1 s2 \<le> 59 \<and>
      is_time_offset offset)"
| "is_RFC3339 _ = False"

text \<open>
  The clock readings considered: a date of the civil calendar in the years 0 to 9999, a
  time of day, and a zone offset of less than a day.
\<close>

definition valid_time :: "time \<Rightarrow> bool" where
  "valid_time t =
     (0 \<le> Year t \<and> Year t \<le> 9999 \<and> 1 \<le> Month t \<and> Month t \<le> 12 \<and> 1 \<le> Day t \<and>
      Day t \<le> days_in_month (nat (Year t)) (Month t) \<and> Hour t \<le> 23 \<and> Minute t \<le> 59 \<and>
      Second t \<le> 59 \<and> \<bar>ZoneOffset t\<bar> < 86400)"

subsection \<open>Calls and steps of a request\<close>

text \<open>The authentication call; the calls made once the status has been read.\<close>

abbreviation auth :: call where
  "auth \<equiv> CallNewService ''service_account.json''"

abbreviation fetch_trace :: "'op env \<Rightarrow> call list" where
  "fetch_trace env \<equiv> [auth, auth, CallGet (projectID env) (instanceID env)]"

fun is_patch :: "call \<Rightarrow> bool" where
  "is_patch (CallPatch project inst policy) = True"
| "is_patch c = False"

text \<open>
  What the status fetch of a handler returns, the handler's own authentication having
  succeeded.
\<close>

definition status_read :: "'op env \<Rightarrow> SQLInstancesData result" where
  "status_read env =
     fst (checkStatusInstances env (projectID env) (instanceID env) [auth])"

definition status_trace :: "'op env \<Rightarrow> call list" where
  "status_trace env =
     snd (checkStatusInstances env (projectID env) (instanceID env) [auth])"

text \<open>
  The activation policy a request asks for: its body is read, is valid JSON for an
  object, and maps \<open>ActivationPolicy\<close> to exactly the string \<open>ALWAYS\<close> or \<open>NEVER\<close>.
  Every other request asks for none.
\<close>

definition accepted_policy :: "'op env \<Rightarrow> request \<Rightarrow> string option" where
  "accepted_policy env r =
     (case Body r of
        Inl err \<Rightarrow> None
      | Inr bytes \<Rightarrow>
          (case Unmarshal env bytes of
             Inl err \<Rightarrow> None
           | Inr payload \<Rightarrow>
               if payload ''ActivationPolicy'' = Some (JsonString ''ALWAYS'') then Some ''ALWAYS''
               else if payload ''ActivationPolicy'' = Some (JsonString ''NEVER'') then Some ''NEVER''
               else None))"

text \<open>The messages of the responses that reject a body.\<close>

definition validation_messages :: "string set" where
  "validation_messages =
     {''Failed to read request body.'', ''Invalid JSON format.'',
      ''Invalid value for ActivationPolicy. Must be 'ALWAYS' or 'NEVER'.''}"

subsection \<open>Observations of an outcome\<close>

definition responded_with :: "'op outcome \<Rightarrow> int \<Rightarrow> bool" where
  "responded_with out code =
     (case out of
        Panicked \<Rightarrow> False
      | Responded resp \<Rightarrow> http_status resp = code \<and> body resp ''status_code'' = Some (FieldInt code))"

definition error_fields :: "'op response \<Rightarrow> 'op field option \<times> 'op field option" where
  "error_fields resp = (body resp ''error_type'', body resp ''error_description'')"

definition error_fields_of :: "'op outcome \<Rightarrow> 'op field option \<times> 'op field option" where
  "error_fields_of out = (case out of Panicked \<Rightarrow> (None, None) | Responded resp \<Rightarrow> error_fields resp)"

definition outcome_field :: "'op outcome \<Rightarrow> string \<Rightarrow> 'op field option" where
  "outcome_field out key = (case out of Panicked \<Rightarrow> None | Responded resp \<Rightarrow> body resp key)"

text \<open>
  The members of the JSON object written for the data of a response, when the data is a
  \<open>SQLInstancesData\<close>, and the member of a given name.
\<close>

definition data_members :: "'op outcome \<Rightarrow> (string \<times> string) list option" where
  "data_members out =
     (case outcome_field out ''data'' of
        Some (FieldInstance d) \<Rightarrow> Some (json_SQLInstancesData d)
      | _ \<Rightarrow> None)"

definition data_member :: "'op outcome \<Rightarrow> string \<Rightarrow> string option" where
  "data_member out key = (case data_members out of Some ms \<Rightarrow> map_of ms key | None \<Rightarrow> None)"

text \<open>
  An envelope carries a timestamp of RFC 3339 and the reason phrase of its status code,
  which is also the status of the response.
\<close>

definition envelope_ok :: "'op response \<Rightarrow> bool" where
  "envelope_ok resp =
     ((case body resp ''timestamp'' of Some (FieldString ts) \<Rightarrow> is_RFC3339 ts | _ \<Rightarrow> False) \<and>
      body resp ''status_code'' = Some (FieldInt (http_status resp)) \<and>
      body resp ''status_text'' = Some (FieldString (StatusText (http_status resp))) \<and>
      StatusText (http_status resp) \<noteq> [])"

definition outcome_ok :: "'op outcome \<Rightarrow> bool" where
  "outcome_ok out = (case out of Panicked \<Rightarrow> True | Responded resp \<Rightarrow> envelope_ok resp)"

section \<open>Example requests and environments\<close>

definition quoted :: "string \<Rightarrow> string" where
  "quoted s = [CHR 0x22] @ s @ [CHR 0x22]"

text \<open>The body \<open>{"ActivationPolicy":v}\<close> for the text \<open>v\<close> of a JSON value.\<close>

definition policy_body :: "string \<Rightarrow> string" where
  "policy_body v = ''{'' @ quoted ''ActivationPolicy'' @ '':'' @ v @ ''}''"

text \<open>
  \<open>json.Unmarshal\<close> on the bodies of the examples; every other body is taken to be
  malformed.
\<close>

definition example_Unmarshal :: "string \<Rightarrow> go_error + (string \<rightharpoonup> json_value)" where
  "example_Unmarshal bytes =
     (if bytes = ''{}'' then Inr Map.empty
      else if bytes = policy_body (quoted ''ALWAYS'')
        then Inr [''ActivationPolicy'' \<mapsto> JsonString ''ALWAYS'']
      else if bytes = policy_body (quoted ''NEVER'')
        then Inr [''ActivationPolicy'' \<mapsto> JsonString ''NEVER'']
      else if bytes = policy_body (quoted ''always'')
        then Inr [''ActivationPolicy'' \<mapsto> JsonString ''always'']
      else if bytes = policy_body ''true''
        then Inr [''ActivationPolicy'' \<mapsto> JsonBool True]
      else if bytes = policy_body ''null''
        then Inr [''ActivationPolicy'' \<mapsto> JsonNil]
      else Inl (OtherError ''invalid character''))"

definition example_time :: time where
  "example_time =
     \<lparr>Year = 2024, Month = 2, Day = 29, Hour = 7, Minute = 5, Second = 9, ZoneOffset = 25200\<rparr>"

definition example_instance :: "string \<Rightarrow> DatabaseInstance" where
  "example_instance st =
     \<lparr>Instance_Name = ''db-main'', Instance_DatabaseVersion = ''POSTGRES_15'',
      Instance_Region = ''asia-southeast2'', Instance_State = st,
      Instance_Settings = Some \<lparr>Settings_Tier = ''db-f1-micro''\<rparr>\<rparr>"

text \<open>
  A provider that authenticates, reports the instance in the given state and answers
  every patch with an operation, here its name.
\<close>

definition example_env :: "string \<Rightarrow> string env" where
  "example_env st =
     \<lparr>projectID = ''my-project'', instanceID = ''db-main'', Unmarshal = example_Unmarshal,
      NewService = (\<lambda>t. None), InstancesGet = (\<lambda>t. Inr (example_instance st)),
      InstancesPatch = (\<lambda>t. Inr ''operation-1''), Now = (\<lambda>t. example_time)\<rparr>"

definition post :: "string \<Rightarrow> request" where
  "post bytes = \<lparr>Method = ''POST'', Body = Inr bytes\<rparr>"

definition get :: request where
  "get = \<lparr>Method = ''GET'', Body = Inr []\<rparr>"

text \<open>An environment in which the credentials file is missing.\<close>

definition no_credentials :: go_error where
  "no_credentials = OtherError ''open service_account.json: no such file or directory''"

definition no_credentials_env :: "string env" where
  "no_credentials_env = (example_env ''RUNNABLE'')\<lparr>NewService := (\<lambda>t. Some no_credentials)\<rparr>"

text \<open>The provider's error for an instance that does not exist.\<close>

definition not_found :: go_error where
  "not_found =
     GoogleapiError 404 ''The Cloud SQL instance does not exist.''
       ''googleapi: Error 404: The Cloud SQL instance does not exist., instanceDoesNotExist''"

text \<open>An environment in which the provider does not know the instance.\<close>

definition not_found_env :: "string env" where
  "not_found_env = (example_env ''RUNNABLE'')\<lparr>InstancesGet := (\<lambda>t. Inl not_found)\<rparr>"

section \<open>Decimal digits and the RFC 3339 layout\<close>

lemma is_digit_digit_char: "d < 10 \<Longrightarrow> is_digit (digit_char d)"
  by (simp add: is_digit_def digit_char_def)

lemma digit_val_digit_char: "d < 10 \<Longrightarrow> digit_val (digit_char d) = d"
  by (simp add: digit_val_def digit_char_def)

lemma digit_char_0: "digit_char 0 = CHR ''0''"
  by (simp only: digit_char_def add_0_right char_of_char)

lemma digits10_1: "n < 10 \<Longrightarrow> digits10 n = [digit_char n]"
  by (simp add: digits10.simps)

lemma digits10_2:
  assumes "10 \<le> n" "n < 100"
  shows "digits10 n = [digit_char (n div 10), digit_char (n mod 10)]"
proof -
  have "n div 10 < 10" using assms by arith
  then have "digits10 (n div 10) = [digit_char (n div 10)]" by (rule digits10_1)
  moreover have "digits10 n = digits10 (n div 10) @ [digit_char (n mod 10)]"
    using assms by (subst digits10.simps) simp
  ultimately show ?thesis by simp
qed

lemma digits10_3:
  assumes "100 \<le> n" "n < 1000"
  shows "digits10 n =
    [digit_char (n div 10 div 10), digit_char (n div 10 mod 10), digit_char (n mod 10)]"
proof -
  have "10 \<le> n div 10" "n div 10 < 100" using assms by arith+
  then have "digits10 (n div 10) = [digit_char (n div 10 div 10), digit_char (n div 10 mod 10)]"
    by (rule digits10_2)
  moreover have "digits10 n = digits10 (n div 10) @ [digit_char (n mod 10)]"
    using assms by (subst digits10.simps) simp
  ultimately show ?thesis by simp
qed

lemma digits10_4:
  assumes "1000 \<le> n" "n < 10000"
  shows "digits10 n = [digit_char (n div 10 div 10 div 10), digit_char (n div 10 div 10 mod 10),
     digit_char (n div 10 mod 10), digit_char (n mod 10)]"
proof -
  have "100 \<le> n div 10" "n div 10 < 1000" using assms by arith+
  then have "digits10 (n div 10) = [digit_char (n div 10 div 10 div 10),
      digit_char (n div 10 div 10 mod 10), digit_char (n div 10 mod 10)]"
    by (rule digits10_3)
  moreover have "digits10 n = digits10 (n div 10) @ [digit_char (n mod 10)]"
    using assms by (subst digits10.simps) simp
  ultimately show ?thesis by simp
qed

lemma replicate_2: "replicate 2 x = [x, x]"
  by (simp add: numeral_2_eq_2)

lemma replicate_3: "replicate 3 x = [x, x, x]"
  by (simp add: numeral_3_eq_3)

text \<open>Two-digit and four-digit fields, as \<open>Format\<close> prints them.\<close>

lemma appendInt_2:
  assumes "n < 100"
  shows "appendInt (int n) 2 = [digit_char (n div 10), digit_char (n mod 10)]"
proof (cases "n < 10")
  case True
  then show ?thesis
    by (simp add: appendInt_def digits10_1 digit_char_0)
next
  case False
  then have "digits10 n = [digit_char (n div 10), digit_char (n mod 10)]"
    using assms by (intro digits10_2) simp_all
  then show ?thesis
    by (simp add: appendInt_def)
qed

lemma appendInt_4:
  assumes n: "n < 10000"
  shows "appendInt (int n) 4 =
   [digit_char (n div 10 div 10 div 10), digit_char (n div 10 div 10 mod 10),
    digit_char (n div 10 mod 10), digit_char (n mod 10)]"
proof -
  consider "n < 10" | "10 \<le> n" "n < 100" | "100 \<le> n" "n < 1000" | "1000 \<le> n"
    by linarith
  then show ?thesis
  proof cases
    case 1
    then have "digits10 n = [digit_char n]" by (rule digits10_1)
    with 1 show ?thesis
      by (simp add: appendInt_def digit_char_0 replicate_3)
  next
    case 2
    then have d: "digits10 n = [digit_char (n div 10), digit_char (n mod 10)]"
      by (rule digits10_2)
    have "n div 10 div 10 = 0" using 2 by simp
    with d show ?thesis
      by (simp add: appendInt_def digit_char_0 replicate_2)
  next
    case 3
    then have d: "digits10 n =
        [digit_char (n div 10 div 10), digit_char (n div 10 mod 10), digit_char (n mod 10)]"
      by (rule digits10_3)
    have "n div 10 div 10 < 10" using 3 by arith
    with d show ?thesis
      by (simp add: appendInt_def digit_char_0)
  next
    case 4
    then have d: "digits10 n = [digit_char (n div 10 div 10 div 10),
        digit_char (n div 10 div 10 mod 10), digit_char (n div 10 mod 10), digit_char (n mod 10)]"
      using n by (rule digits10_4)
    then show ?thesis
      by (simp add: appendInt_def)
  qed
qed

lemma num2_digits:
  assumes "n < 100"
  shows "num2 (digit_char (n div 10)) (digit_char (n mod 10)) = n"
proof -
  have "n div 10 < 10" using assms by (simp add: less_mult_imp_div_less)
  then have "digit_val (digit_char (n div 10)) = n div 10"
    by (rule digit_val_digit_char)
  moreover have "digit_val (digit_char (n mod 10)) = n mod 10"
    by (rule digit_val_digit_char) simp
  ultimately show ?thesis
    by (simp add: num2_def)
qed

lemma year_digits:
  assumes "n < 10000"
  shows "100 * num2 (digit_char (n div 10 div 10 div 10)) (digit_char (n div 10 div 10 mod 10)) +
     num2 (digit_char (n div 10 mod 10)) (digit_char (n mod 10)) = n"
proof -
  define q where "q = n div 10 div 10"
  have "n div 10 < 1000" using assms by (simp add: less_mult_imp_div_less)
  then have q: "q < 100" unfolding q_def by (simp add: less_mult_imp_div_less)
  have a: "num2 (digit_char (q div 10)) (digit_char (q mod 10)) = q"
    using q by (rule num2_digits)
  have "n div 10 mod 10 < 10" by simp
  then have b: "num2 (digit_char (n div 10 mod 10)) (digit_char (n mod 10)) =
      10 * (n div 10 mod 10) + n mod 10"
    by (simp add: num2_def digit_val_digit_char)
  have "100 * q + (10 * (n div 10 mod 10) + n mod 10) =
      10 * (10 * q + n div 10 mod 10) + n mod 10"
    by simp
  also have "10 * q + n div 10 mod 10 = n div 10"
    unfolding q_def by (rule mult_div_mod_eq)
  also have "10 * (n div 10) + n mod 10 = n"
    by (rule mult_div_mod_eq)
  finally show ?thesis
    using a b unfolding q_def by simp
qed

text \<open>The offset is printed in whole minutes, rounded towards zero.\<close>

lemma abs_quot_60:
  assumes "z \<noteq> 0"
  shows "\<bar>quot z 60\<bar> = int (nat \<bar>z\<bar> div 60)"
proof -
  have "\<bar>quot z 60\<bar> = \<bar>z\<bar> div 60"
    using assms by (simp add: quot_def abs_mult)
  also have "\<dots> = int (nat \<bar>z\<bar>) div int 60"
    by simp
  also have "\<dots> = int (nat \<bar>z\<bar> div 60)"
    by (simp only: zdiv_int)
  finally show ?thesis .
qed

lemma is_time_offset_format:
  assumes "\<bar>z\<bar> < 86400"
  shows "is_time_offset (if z = 0 then ''Z''
      else let zone = quot z 60
           in (if zone < 0 then ''-'' else ''+'') @
              appendInt (\<bar>zone\<bar> div 60) 2 @ '':'' @ appendInt (\<bar>zone\<bar> mod 60) 2)"
proof (cases "z = 0")
  case True
  then show ?thesis by simp
next
  case False
  define m where "m = nat \<bar>z\<bar> div 60"
  have "nat \<bar>z\<bar> < 1440 * 60" using assms by simp
  then have m: "m < 24 * 60" unfolding m_def by (simp add: less_mult_imp_div_less)
  then have hh: "m div 60 < 24" by (simp add: less_mult_imp_div_less)
  have mm: "m mod 60 < 60" by simp
  have a: "\<bar>quot z 60\<bar> = int m"
    unfolding m_def using False by (rule abs_quot_60)
  have "\<bar>quot z 60\<bar> div 60 = int (m div 60)"
    unfolding a by (simp add: zdiv_int)
  then have h: "appendInt (\<bar>quot z 60\<bar> div 60) 2 =
      [digit_char (m div 60 div 10), digit_char (m div 60 mod 10)]"
    using hh by (simp add: appendInt_2)
  have "\<bar>quot z 60\<bar> mod 60 = int (m mod 60)"
    unfolding a by (simp add: zmod_int)
  then have n: "appendInt (\<bar>quot z 60\<bar> mod 60) 2 =
      [digit_char (m mod 60 div 10), digit_char (m mod 60 mod 10)]"
    using mm by (simp add: appendInt_2)
  have d: "is_digit (digit_char (m div 60 div 10))" "is_digit (digit_char (m div 60 mod 10))"
    "is_digit (digit_char (m mod 60 div 10))" "is_digit (digit_char (m mod 60 mod 10))"
    using hh by (simp_all add: is_digit_digit_char less_mult_imp_div_less)
  have v: "num2 (digit_char (m div 60 div 10)) (digit_char (m div 60 mod 10)) = m div 60"
    "num2 (digit_char (m mod 60 div 10)) (digit_char (m mod 60 mod 10)) = m mod 60"
    using hh by (simp_all add: num2_digits)
  show ?thesis
    using False hh by (simp add: Let_def h n d v)
qed

text \<open>Every valid clock reading is formatted as a timestamp of RFC 3339.\<close>

lemma Format_RFC3339_parses:
  assumes v: "valid_time t"
  shows "is_RFC3339 (Format_RFC3339 t)"
proof -
  define y where "y = nat (Year t)"
  define zs where "zs = (if ZoneOffset t = 0 then ''Z''
      else let zone = quot (ZoneOffset t) 60
           in (if zone < 0 then ''-'' else ''+'') @
              appendInt (\<bar>zone\<bar> div 60) 2 @ '':'' @ appendInt (\<bar>zone\<bar> mod 60) 2)"
  have "0 \<le> Year t" "Year t \<le> 9999"
    using v by (simp_all add: valid_time_def)
  then have y: "Year t = int y" and y4: "y < 10000"
    unfolding y_def by linarith+
  have "\<bar>ZoneOffset t\<bar> < 86400" using v by (simp add: valid_time_def)
  then have zone: "is_time_offset zs"
    unfolding zs_def by (rule is_time_offset_format)
  have r: "1 \<le> Month t" "Month t \<le> 12" "1 \<le> Day t" "Day t \<le> days_in_month y (Month t)"
    "Hour t \<le> 23" "Minute t \<le> 59" "Second t \<le> 59"
    using v by (simp_all add: valid_time_def y_def)
  have "days_in_month y (Month t) \<le> 31"
    by (simp add: days_in_month_def)
  with r have f: "Month t < 100" "Day t < 100" "Hour t < 100" "Minute t < 100" "Second t < 100"
    by simp_all
  have "Format_RFC3339 t =
     appendInt (int y) 4 @ ''-'' @ appendInt (int (Month t)) 2 @ ''-'' @
     appendInt (int (Day t)) 2 @ ''T'' @ appendInt (int (Hour t)) 2 @ '':'' @
     appendInt (int (Minute t)) 2 @ '':'' @ appendInt (int (Second t)) 2 @ zs"
    unfolding Format_RFC3339_def zs_def y ..
  then have F: "Format_RFC3339 t =
     digit_char (y div 10 div 10 div 10) # digit_char (y div 10 div 10 mod 10) #
     digit_char (y div 10 mod 10) # digit_char (y mod 10) # CHR ''-'' #
     digit_char (Month t div 10) # digit_char (Month t mod 10) # CHR ''-'' #
     digit_char (Day t div 10) # digit_char (Day t mod 10) # CHR ''T'' #
     digit_char (Hour t div 10) # digit_char (Hour t mod 10) # CHR '':'' #
     digit_char (Minute t div 10) # digit_char (Minute t mod 10) # CHR '':'' #
     digit_char (Second t div 10) # digit_char (Second t mod 10) # zs"
    using f y4 by (simp add: appendInt_2 appendInt_4)
  have dg: "\<And>n. n < 100 \<Longrightarrow> is_digit (digit_char (n div 10)) \<and> is_digit (digit_char (n mod 10))"
    by (simp add: is_digit_digit_char less_mult_imp_div_less)
  have "y div 10 < 1000" using y4 by (simp add: less_mult_imp_div_less)
  then have "y div 10 div 10 < 100" by (simp add: less_mult_imp_div_less)
  then have dy: "is_digit (digit_char (y div 10 div 10 div 10))"
    "is_digit (digit_char (y div 10 div 10 mod 10))"
    "is_digit (digit_char (y div 10 mod 10))" "is_digit (digit_char (y mod 10))"
    by (simp_all add: is_digit_digit_char less_mult_imp_div_less)
  note nv = f [THEN num2_digits] year_digits [OF y4]
  show ?thesis
    unfolding F using zone f r dy dg
    by (simp add: nv)
qed

lemma Sprintf_d_examples: "Sprintf_d 404 = ''404''" "Sprintf_d (- 7) = ''-7''" "Sprintf_d 0 = ''0''"
  by code_simp+

section \<open>The response formatter\<close>

lemma writeErrorResponse_status [simp]:
  "http_status (writeErrorResponse now code message err) = code"
  by (simp add: writeErrorResponse_def split: prod.split)

lemma writeErrorResponse_envelope [simp]:
  "body (writeErrorResponse now code message err) ''status_code'' = Some (FieldInt code)"
  "body (writeErrorResponse now code message err) ''status_text'' =
     Some (FieldString (StatusText code))"
  "body (writeErrorResponse now code message err) ''message'' = Some (FieldString message)"
  "body (writeErrorResponse now code message err) ''timestamp'' =
     Some (FieldString (Format_RFC3339 now))"
  by (simp_all add: writeErrorResponse_def split: prod.split)

lemma writeErrorResponse_data [simp]:
  "body (writeErrorResponse now code message err) ''data'' = None"
  by (simp add: writeErrorResponse_def split: prod.split)

lemma writeErrorResponse_provider [simp]:
  "body (writeErrorResponse now code message (CauseError (GoogleapiError c m t))) ''error_type'' =
     Some (FieldString (''googleapi_'' @ Sprintf_d c))"
  "body (writeErrorResponse now code message (CauseError (GoogleapiError c m t)))
     ''error_description'' = Some (FieldString m)"
  by (simp_all add: writeErrorResponse_def)

lemma writeErrorResponse_generic [simp]:
  "body (writeErrorResponse now code message (CauseError (OtherError s))) ''error_type'' =
     Some (FieldString ''internal_error'')"
  "body (writeErrorResponse now code message (CauseError (OtherError s))) ''error_description'' =
     Some (FieldString s)"
  "body (writeErrorResponse now code message (CauseError (WrapError s e))) ''error_type'' =
     Some (FieldString ''internal_error'')"
  "body (writeErrorResponse now code message (CauseError (WrapError s e))) ''error_description'' =
     Some (FieldString s)"
  by (simp_all add: writeErrorResponse_def)

lemma writeErrorResponse_string [simp]:
  "body (writeErrorResponse now code message (CauseString s)) ''error_type'' =
     Some (FieldString ''internal_error'')"
  "body (writeErrorResponse now code message (CauseString s)) ''error_description'' =
     Some (FieldString s)"
  by (simp_all add: writeErrorResponse_def)

lemma writeErrorResponse_other:
  "err = CauseNil \<or> err = CauseBool b \<or> err = CauseInt i \<Longrightarrow>
   body (writeErrorResponse now code message err) ''error_type'' =
     Some (FieldString ''unknown_error'') \<and>
   body (writeErrorResponse now code message err) ''error_description'' =
     Some (FieldString (Sprintf_v err))"
  by (auto simp add: writeErrorResponse_def)

lemma writeSuccessResponse_status [simp]:
  "http_status (writeSuccessResponse now code message data) = code"
  by (simp add: writeSuccessResponse_def)

lemma writeSuccessResponse_envelope [simp]:
  "body (writeSuccessResponse now code message data) ''status_code'' = Some (FieldInt code)"
  "body (writeSuccessResponse now code message data) ''status_text'' =
     Some (FieldString (StatusText code))"
  "body (writeSuccessResponse now code message data) ''message'' = Some (FieldString message)"
  "body (writeSuccessResponse now code message data) ''timestamp'' =
     Some (FieldString (Format_RFC3339 now))"
  "body (writeSuccessResponse now code message data) ''data'' = Some data"
  by (simp_all add: writeSuccessResponse_def)

section \<open>The status reader\<close>

lemma checkStatusInstances_eq:
  "checkStatusInstances env (projectID env) (instanceID env) [auth] =
     (status_read env, status_trace env)"
  by (simp add: status_read_def status_trace_def)

lemma status_trace_cases:
  "status_trace env = [auth, auth] \<or> status_trace env = fetch_trace env"
  by (simp add: status_trace_def checkStatusInstances_def Let_def
      split: option.split sum.split)

lemma status_read_Returns:
  assumes "status_read env = Returns st"
  shows "status_trace env = fetch_trace env"
    and "NewService env [auth, auth] = None"
    and "\<exists>instance settings. InstancesGet env (fetch_trace env) = Inr instance \<and>
           Instance_Settings instance = Some settings \<and>
           st = \<lparr>Name = Instance_Name instance,
                 DatabaseVersion = Instance_DatabaseVersion instance,
                 Region = Instance_Region instance, State = Instance_State instance,
                 Tier = Settings_Tier settings\<rparr>"
  using assms
  by (auto simp add: status_read_def status_trace_def checkStatusInstances_def Let_def
      split: option.splits sum.splits)

lemma status_read_Panics:
  assumes "status_read env = Panics"
  shows "status_trace env = fetch_trace env"
  using assms
  by (auto simp add: status_read_def status_trace_def checkStatusInstances_def Let_def
      split: option.splits sum.splits)

lemma status_read_Fails:
  assumes "status_read env = Fails err"
  shows "(\<exists>cause. NewService env [auth, auth] = Some cause \<and> status_trace env = [auth, auth] \<and>
            err = Errorf_w ''failed to find Service Account: '' cause) \<or>
         (\<exists>cause. NewService env [auth, auth] = None \<and>
            InstancesGet env (fetch_trace env) = Inl cause \<and>
            status_trace env = fetch_trace env \<and>
            err = Errorf_w ''failed to get instance details, instances not found.: '' cause)"
  using assms
  by (auto simp add: status_read_def status_trace_def checkStatusInstances_def Let_def
      split: option.splits sum.splits)

lemma status_read_fetched:
  assumes "NewService env [auth, auth] = None"
    and "InstancesGet env (fetch_trace env) = Inr instance"
    and "Instance_Settings instance = Some settings"
  shows "status_read env = Returns \<lparr>Name = Instance_Name instance,
                 DatabaseVersion = Instance_DatabaseVersion instance,
                 Region = Instance_Region instance, State = Instance_State instance,
                 Tier = Settings_Tier settings\<rparr>"
  using assms by (simp add: status_read_def checkStatusInstances_def)

section \<open>Validation of the body\<close>

lemma assert_string_index_map:
  "assert_string (index_map payload key) =
     (case payload key of Some (JsonString s) \<Rightarrow> (s, True) | _ \<Rightarrow> ([], False))"
  by (simp add: index_map_def split: option.split json_value.split)

lemma accepted_policy_Some:
  assumes "accepted_policy env r = Some p"
  shows "\<exists>bytes payload. Body r = Inr bytes \<and> Unmarshal env bytes = Inr payload \<and>
           assert_string (index_map payload ''ActivationPolicy'') = (p, True) \<and>
           (p = ''ALWAYS'' \<or> p = ''NEVER'')"
  using assms
  by (auto simp add: accepted_policy_def assert_string_index_map
      split: sum.splits if_splits)

lemma accepted_policy_None:
  assumes "accepted_policy env r = None" and "Body r = Inr bytes"
    and "Unmarshal env bytes = Inr payload"
    and "assert_string (index_map payload ''ActivationPolicy'') = (p, ok)"
  shows "\<not> ok \<or> (p \<noteq> ''ALWAYS'' \<and> p \<noteq> ''NEVER'')"
  using assms
  by (auto simp add: accepted_policy_def assert_string_index_map
      split: sum.splits if_splits option.splits json_value.splits)


section \<open>The handlers, step by step\<close>

lemma startInstanceHandler_wrong_method:
  "Method r \<noteq> ''POST'' \<Longrightarrow>
   startInstanceHandler env r =
     (Responded (writeErrorResponse (Now env []) 405 ''Method not allowed.'' (CauseString [])), [])"
  by (simp add: startInstanceHandler_def Let_def)

lemma startInstanceHandler_auth_failed:
  "Method r = ''POST'' \<Longrightarrow> NewService env [auth] = Some err \<Longrightarrow>
   startInstanceHandler env r =
     (Responded (writeErrorResponse (Now env [auth]) 401 ''Service Account not found.''
        (CauseError err)), [auth])"
  by (simp add: startInstanceHandler_def Let_def)

lemma startInstanceHandler_fetch_failed:
  "Method r = ''POST'' \<Longrightarrow> NewService env [auth] = None \<Longrightarrow> status_read env = Fails err \<Longrightarrow>
   startInstanceHandler env r =
     (Responded (writeErrorResponse (Now env (status_trace env)) 500 ''Instances not found.''
        (CauseString (Error err))), status_trace env)"
  by (simp add: startInstanceHandler_def Let_def checkStatusInstances_eq)

lemma startInstanceHandler_panics:
  "Method r = ''POST'' \<Longrightarrow> NewService env [auth] = None \<Longrightarrow> status_read env = Panics \<Longrightarrow>
   startInstanceHandler env r = (Panicked, status_trace env)"
  by (simp add: startInstanceHandler_def Let_def checkStatusInstances_eq)

lemma startInstanceHandler_rejected:
  assumes "Method r = ''POST''" and "NewService env [auth] = None"
    and "status_read env = Returns st" and "accepted_policy env r = None"
  shows "\<exists>message cause. message \<in> validation_messages \<and>
     startInstanceHandler env r =
       (Responded (writeErrorResponse (Now env (fetch_trace env)) 400 message cause),
        fetch_trace env)"
proof -
  have t: "status_trace env = fetch_trace env"
    using assms(3) by (rule status_read_Returns)
  show ?thesis
  proof (cases "Body r")
    case (Inl err)
    have "startInstanceHandler env r =
       (Responded (writeErrorResponse (Now env (fetch_trace env)) 400
          ''Failed to read request body.'' (CauseError err)), fetch_trace env)"
      using assms(1-3) t Inl
      by (simp add: startInstanceHandler_def Let_def checkStatusInstances_eq)
    then show ?thesis
      unfolding validation_messages_def by blast
  next
    case (Inr bytes)
    show ?thesis
    proof (cases "Unmarshal env bytes")
      case (Inl err)
      have "startInstanceHandler env r =
         (Responded (writeErrorResponse (Now env (fetch_trace env)) 400
            ''Invalid JSON format.'' (CauseError err)), fetch_trace env)"
        using assms(1-3) t Inr Inl
        by (simp add: startInstanceHandler_def Let_def checkStatusInstances_eq)
      then show ?thesis
        unfolding validation_messages_def by blast
    next
      case payload: (Inr payload)
      obtain p ok where a: "assert_string (index_map payload ''ActivationPolicy'') = (p, ok)"
        by (cases "assert_string (index_map payload ''ActivationPolicy'')")
      have "\<not> ok \<or> (p \<noteq> ''ALWAYS'' \<and> p \<noteq> ''NEVER'')"
        using assms(4) Inr payload a by (rule accepted_policy_None)
      then have "startInstanceHandler env r =
         (Responded (writeErrorResponse (Now env (fetch_trace env)) 400
            ''Invalid value for ActivationPolicy. Must be 'ALWAYS' or 'NEVER'.''
            (CauseString [])), fetch_trace env)"
        using assms(1-3) t Inr payload a
        by (simp add: startInstanceHandler_def Let_def checkStatusInstances_eq)
      then show ?thesis
        unfolding validation_messages_def by blast
    qed
  qed
qed

lemma startInstanceHandler_accepted:
  assumes "Method r = ''POST''" and "NewService env [auth] = None"
    and "status_read env = Returns st" and "accepted_policy env r = Some p"
  shows "startInstanceHandler env r =
     (case InstancesPatch env (fetch_trace env @ [CallPatch (projectID env) (instanceID env) p]) of
        Inl err \<Rightarrow>
          (Responded (writeErrorResponse
             (Now env (fetch_trace env @ [CallPatch (projectID env) (instanceID env) p])) 500
             ''Failed to start instance.'' (CauseError err)),
           fetch_trace env @ [CallPatch (projectID env) (instanceID env) p])
      | Inr operation \<Rightarrow>
          (Responded (writeSuccessResponse
             (Now env (fetch_trace env @ [CallPatch (projectID env) (instanceID env) p])) 200
             ''Instance successfully started. Check console for details.''
             (FieldOperation operation)),
           fetch_trace env @ [CallPatch (projectID env) (instanceID env) p]))"
proof -
  have t: "status_trace env = fetch_trace env"
    using assms(3) by (rule status_read_Returns)
  obtain bytes payload where b: "Body r = Inr bytes" "Unmarshal env bytes = Inr payload"
    "assert_string (index_map payload ''ActivationPolicy'') = (p, True)"
    "p = ''ALWAYS'' \<or> p = ''NEVER''"
    using accepted_policy_Some [OF assms(4)] by blast
  show ?thesis
    using assms(1-3) t b
    by (auto simp add: startInstanceHandler_def Let_def checkStatusInstances_eq split: sum.split)
qed

lemma stopInstancesHandler_wrong_method:
  "Method r \<noteq> ''POST'' \<Longrightarrow>
   stopInstancesHandler env r =
     (Responded (writeErrorResponse (Now env []) 405 ''Method not allowed.'' (CauseString [])), [])"
  by (simp add: stopInstancesHandler_def Let_def)

lemma stopInstancesHandler_auth_failed:
  "Method r = ''POST'' \<Longrightarrow> NewService env [auth] = Some err \<Longrightarrow>
   stopInstancesHandler env r =
     (Responded (writeErrorResponse (Now env [auth]) 401 ''Service Account not found.''
        (CauseError err)), [auth])"
  by (simp add: stopInstancesHandler_def Let_def)

lemma stopInstancesHandler_fetch_failed:
  "Method r = ''POST'' \<Longrightarrow> NewService env [auth] = None \<Longrightarrow> status_read env = Fails err \<Longrightarrow>
   stopInstancesHandler env r =
     (Responded (writeErrorResponse (Now env (status_trace env)) 500 ''Instances not found.''
        (CauseString (Error err))), status_trace env)"
  by (simp add: stopInstancesHandler_def Let_def checkStatusInstances_eq)

lemma stopInstancesHandler_panics:
  "Method r = ''POST'' \<Longrightarrow> NewService env [auth] = None \<Longrightarrow> status_read env = Panics \<Longrightarrow>
   stopInstancesHandler env r = (Panicked, status_trace env)"
  by (simp add: stopInstancesHandler_def Let_def checkStatusInstances_eq)

lemma stopInstancesHandler_rejected:
  assumes "Method r = ''POST''" and "NewService env [auth] = None"
    and "status_read env = Returns st" and "accepted_policy env r = None"
    and run: "State st = ''RUNNABLE''"
  shows "\<exists>message cause. message \<in> validation_messages \<and>
     stopInstancesHandler env r =
       (Responded (writeErrorResponse (Now env (fetch_trace env)) 400 message cause),
        fetch_trace env)"
proof -
  have t: "status_trace env = fetch_trace env"
    using assms(3) by (rule status_read_Returns)
  show ?thesis
  proof (cases "Body r")
    case (Inl err)
    have "stopInstancesHandler env r =
       (Responded (writeErrorResponse (Now env (fetch_trace env)) 400
          ''Failed to read request body.'' (CauseError err)), fetch_trace env)"
      using assms(1-3) run t Inl
      by (simp add: stopInstancesHandler_def Let_def checkStatusInstances_eq)
    then show ?thesis
      unfolding validation_messages_def by blast
  next
    case (Inr bytes)
    show ?thesis
    proof (cases "Unmarshal env bytes")
      case (Inl err)
      have "stopInstancesHandler env r =
         (Responded (writeErrorResponse (Now env (fetch_trace env)) 400
            ''Invalid JSON format.'' (CauseError err)), fetch_trace env)"
        using assms(1-3) run t Inr Inl
        by (simp add: stopInstancesHandler_def Let_def checkStatusInstances_eq)
      then show ?thesis
        unfolding validation_messages_def by blast
    next
      case payload: (Inr payload)
      obtain p ok where a: "assert_string (index_map payload ''ActivationPolicy'') = (p, ok)"
        by (cases "assert_string (index_map payload ''ActivationPolicy'')")
      have "\<not> ok \<or> (p \<noteq> ''ALWAYS'' \<and> p \<noteq> ''NEVER'')"
        using assms(4) Inr payload a by (rule accepted_policy_None)
      then have "stopInstancesHandler env r =
         (Responded (writeErrorResponse (Now env (fetch_trace env)) 400
            ''Invalid value for ActivationPolicy. Must be 'ALWAYS' or 'NEVER'.''
            (CauseString [])), fetch_trace env)"
        using assms(1-3) run t Inr payload a
        by (simp add: stopInstancesHandler_def Let_def checkStatusInstances_eq)
      then show ?thesis
        unfolding validation_messages_def by blast
    qed
  qed
qed

lemma stopInstancesHandler_accepted:
  assumes "Method r = ''POST''" and "NewService env [auth] = None"
    and "status_read env = Returns st" and "accepted_policy env r = Some p"
    and run: "State st = ''RUNNABLE''"
  shows "stopInstancesHandler env r =
     (case InstancesPatch env (fetch_trace env @ [CallPatch (projectID env) (instanceID env) p]) of
        Inl err \<Rightarrow>
          (Responded (writeErrorResponse
             (Now env (fetch_trace env @ [CallPatch (projectID env) (instanceID env) p])) 500
             ''Failed to stop instance.'' (CauseError err)),
           fetch_trace env @ [CallPatch (projectID env) (instanceID env) p])
      | Inr operation \<Rightarrow>
          (Responded (writeSuccessResponse
             (Now env (fetch_trace env @ [CallPatch (projectID env) (instanceID env) p])) 200
             ''Instance successfully stopped. Check console for details.''
             (FieldOperation operation)),
           fetch_trace env @ [CallPatch (projectID env) (instanceID env) p]))"
proof -
  have t: "status_trace env = fetch_trace env"
    using assms(3) by (rule status_read_Returns)
  obtain bytes payload where b: "Body r = Inr bytes" "Unmarshal env bytes = Inr payload"
    "assert_string (index_map payload ''ActivationPolicy'') = (p, True)"
    "p = ''ALWAYS'' \<or> p = ''NEVER''"
    using accepted_policy_Some [OF assms(4)] by blast
  show ?thesis
    using assms(1-3) run t b
    by (auto simp add: stopInstancesHandler_def Let_def checkStatusInstances_eq split: sum.split)
qed

lemma stopInstancesHandler_not_runnable:
  "Method r = ''POST'' \<Longrightarrow> NewService env [auth] = None \<Longrightarrow> status_read env = Returns st \<Longrightarrow>
   State st \<noteq> ''RUNNABLE'' \<Longrightarrow>
   stopInstancesHandler env r =
     (Responded (writeErrorResponse (Now env (fetch_trace env)) 400
        (''Instance currently in '' @ State st @ '' state.'') (CauseString [])),
      fetch_trace env)"
  by (simp add: stopInstancesHandler_def Let_def checkStatusInstances_eq status_read_Returns(1))

lemma checkInstancesHandler_wrong_method:
  "Method r \<noteq> ''GET'' \<Longrightarrow>
   checkInstancesHandler env r =
     (Responded (writeErrorResponse (Now env []) 405 ''Method not allowed.'' (CauseString [])), [])"
  by (simp add: checkInstancesHandler_def Let_def)

lemma checkInstancesHandler_auth_failed:
  "Method r = ''GET'' \<Longrightarrow> NewService env [auth] = Some err \<Longrightarrow>
   checkInstancesHandler env r =
     (Responded (writeErrorResponse (Now env [auth]) 401 ''Service Account not found.''
        (CauseError err)), [auth])"
  by (simp add: checkInstancesHandler_def Let_def)

lemma checkInstancesHandler_fetch_failed:
  "Method r = ''GET'' \<Longrightarrow> NewService env [auth] = None \<Longrightarrow> status_read env = Fails err \<Longrightarrow>
   checkInstancesHandler env r =
     (Responded (writeErrorResponse (Now env (status_trace env)) 500 ''Instances not found.''
        (CauseString (Error err))), status_trace env)"
  by (simp add: checkInstancesHandler_def Let_def checkStatusInstances_eq)

lemma checkInstancesHandler_panics:
  "Method r = ''GET'' \<Longrightarrow> NewService env [auth] = None \<Longrightarrow> status_read env = Panics \<Longrightarrow>
   checkInstancesHandler env r = (Panicked, status_trace env)"
  by (simp add: checkInstancesHandler_def Let_def checkStatusInstances_eq)

lemma SQLInstancesData_copy:
  "\<lparr>Name = Name st, DatabaseVersion = DatabaseVersion st, Region = Region st,
    State = State st, Tier = Tier st\<rparr> = st"
  by (cases st) simp

lemma checkInstancesHandler_fetched:
  "Method r = ''GET'' \<Longrightarrow> NewService env [auth] = None \<Longrightarrow> status_read env = Returns st \<Longrightarrow>
   checkInstancesHandler env r =
     (Responded (writeSuccessResponse (Now env (fetch_trace env)) 200
        ''Successfully fetch instances detail.'' (FieldInstance st)), fetch_trace env)"
  by (simp add: checkInstancesHandler_def Let_def checkStatusInstances_eq status_read_Returns(1)
      SQLInstancesData_copy)


section \<open>Observations of the outcomes\<close>

lemma responded_with_error [simp]:
  "responded_with (Responded (writeErrorResponse now code message err)) code' = (code = code')"
  by (simp add: responded_with_def)

lemma responded_with_success [simp]:
  "responded_with (Responded (writeSuccessResponse now code message data)) code' = (code = code')"
  by (simp add: responded_with_def)

lemma responded_with_Panicked [simp]: "responded_with Panicked code = False"
  by (simp add: responded_with_def)

lemma outcome_field_Responded [simp]: "outcome_field (Responded resp) key = body resp key"
  by (simp add: outcome_field_def)

lemma error_fields_of_Responded [simp]:
  "error_fields_of (Responded resp) = error_fields resp"
  by (simp add: error_fields_of_def)

section \<open>Envelopes\<close>

lemma StatusText_used:
  "StatusText 200 = ''OK''" "StatusText 400 = ''Bad Request''"
  "StatusText 401 = ''Unauthorized''" "StatusText 405 = ''Method Not Allowed''"
  "StatusText 500 = ''Internal Server Error''"
  by (simp_all add: StatusText_def reason_phrases_def)

lemma outcome_ok_Panicked: "outcome_ok Panicked"
  by (simp add: outcome_ok_def)

lemma outcome_ok_error:
  assumes "valid_time now" and "code = 400 \<or> code = 401 \<or> code = 405 \<or> code = 500"
  shows "outcome_ok (Responded (writeErrorResponse now code message err))"
  using assms Format_RFC3339_parses [OF assms(1)]
  by (auto simp add: outcome_ok_def envelope_ok_def StatusText_used)

lemma outcome_ok_success:
  assumes "valid_time now"
  shows "outcome_ok (Responded (writeSuccessResponse now 200 message data))"
  using Format_RFC3339_parses [OF assms]
  by (simp add: outcome_ok_def envelope_ok_def StatusText_used)

lemma startInstanceHandler_outcome_ok:
  assumes v: "\<And>t. valid_time (Now env t)"
  shows "outcome_ok (fst (startInstanceHandler env r))"
proof (cases "Method r = ''POST''")
  case False
  then show ?thesis
    by (simp add: startInstanceHandler_wrong_method outcome_ok_error v)
next
  case post: True
  show ?thesis
  proof (cases "NewService env [auth]")
    case (Some err)
    then show ?thesis
      by (simp add: startInstanceHandler_auth_failed [OF post] outcome_ok_error v)
  next
    case None
    show ?thesis
    proof (cases "status_read env")
      case Panics
      then show ?thesis
        by (simp add: startInstanceHandler_panics [OF post None] outcome_ok_Panicked)
    next
      case (Fails err)
      then show ?thesis
        by (simp add: startInstanceHandler_fetch_failed [OF post None] outcome_ok_error v)
    next
      case (Returns st)
      show ?thesis
      proof (cases "accepted_policy env r")
        case none: None
        obtain message cause where
          "startInstanceHandler env r =
             (Responded (writeErrorResponse (Now env (fetch_trace env)) 400 message cause),
              fetch_trace env)"
          using startInstanceHandler_rejected [OF post None Returns none] by blast
        then show ?thesis
          by (simp add: outcome_ok_error v)
      next
        case (Some p)
        show ?thesis
          unfolding startInstanceHandler_accepted [OF post None Returns Some]
          by (simp add: outcome_ok_error outcome_ok_success v split: sum.split)
      qed
    qed
  qed
qed

lemma stopInstancesHandler_outcome_ok:
  assumes v: "\<And>t. valid_time (Now env t)"
  shows "outcome_ok (fst (stopInstancesHandler env r))"
proof (cases "Method r = ''POST''")
  case False
  then show ?thesis
    by (simp add: stopInstancesHandler_wrong_method outcome_ok_error v)
next
  case post: True
  show ?thesis
  proof (cases "NewService env [auth]")
    case (Some err)
    then show ?thesis
      by (simp add: stopInstancesHandler_auth_failed [OF post] outcome_ok_error v)
  next
    case None
    show ?thesis
    proof (cases "status_read env")
      case Panics
      then show ?thesis
        by (simp add: stopInstancesHandler_panics [OF post None] outcome_ok_Panicked)
    next
      case (Fails err)
      then show ?thesis
        by (simp add: stopInstancesHandler_fetch_failed [OF post None] outcome_ok_error v)
    next
      case (Returns st)
      show ?thesis
      proof (cases "State st = ''RUNNABLE''")
        case False
        then show ?thesis
          by (simp add: stopInstancesHandler_not_runnable [OF post None Returns]
              outcome_ok_error v)
      next
        case run: True
        show ?thesis
        proof (cases "accepted_policy env r")
          case none: None
          obtain message cause where
            "stopInstancesHandler env r =
               (Responded (writeErrorResponse (Now env (fetch_trace env)) 400 message cause),
                fetch_trace env)"
            using stopInstancesHandler_rejected [OF post None Returns none run] by blast
          then show ?thesis
            by (simp add: outcome_ok_error v)
        next
          case (Some p)
          show ?thesis
            unfolding stopInstancesHandler_accepted [OF post None Returns Some run]
            by (simp add: outcome_ok_error outcome_ok_success v split: sum.split)
        qed
      qed
    qed
  qed
qed

lemma checkInstancesHandler_outcome_ok:
  assumes v: "\<And>t. valid_time (Now env t)"
  shows "outcome_ok (fst (checkInstancesHandler env r))"
proof (cases "Method r = ''GET''")
  case False
  then show ?thesis
    by (simp add: checkInstancesHandler_wrong_method outcome_ok_error v)
next
  case get: True
  show ?thesis
  proof (cases "NewService env [auth]")
    case (Some err)
    then show ?thesis
      by (simp add: checkInstancesHandler_auth_failed [OF get] outcome_ok_error v)
  next
    case None
    show ?thesis
    proof (cases "status_read env")
      case Panics
      then show ?thesis
        by (simp add: checkInstancesHandler_panics [OF get None] outcome_ok_Panicked)
    next
      case (Fails err)
      then show ?thesis
        by (simp add: checkInstancesHandler_fetch_failed [OF get None] outcome_ok_error v)
    next
      case (Returns st)
      then show ?thesis
        by (simp add: checkInstancesHandler_fetched [OF get None] outcome_ok_success v)
    qed
  qed
qed

section \<open>The examples\<close>

lemma example_status_read:
  "status_read (example_env st) =
     Returns \<lparr>Name = ''db-main'', DatabaseVersion = ''POSTGRES_15'',
              Region = ''asia-southeast2'', State = st, Tier = ''db-f1-micro''\<rparr>"
  by (simp add: status_read_def checkStatusInstances_def example_env_def example_instance_def)

lemma example_env_simps [simp]:
  "NewService (example_env st) t = None"
  "InstancesGet (example_env st) t = Inr (example_instance st)"
  "InstancesPatch (example_env st) t = Inr ''operation-1''"
  "Now (example_env st) t = example_time"
  "projectID (example_env st) = ''my-project''"
  "instanceID (example_env st) = ''db-main''"
  "Unmarshal (example_env st) = example_Unmarshal"
  by (simp_all add: example_env_def)

lemma example_accepted_policy:
  "accepted_policy (example_env st) (post ''{}'') = None"
  "accepted_policy (example_env st) (post ''{'') = None"
  "accepted_policy (example_env st) (post (policy_body (quoted ''always''))) = None"
  "accepted_policy (example_env st) (post (policy_body ''true'')) = None"
  "accepted_policy (example_env st) (post (policy_body (quoted ''ALWAYS''))) = Some ''ALWAYS''"
  "accepted_policy (example_env st) (post (policy_body (quoted ''NEVER''))) = Some ''NEVER''"
  by (simp_all add: accepted_policy_def post_def example_Unmarshal_def policy_body_def quoted_def)

lemma example_time_valid: "valid_time example_time"
  by (simp add: valid_time_def example_time_def days_in_month_def leap_year_def)

lemma not_found_status_read:
  "status_read (not_found_env) =
     Fails (Errorf_w ''failed to get instance details, instances not found.: '' not_found)"
  by (simp add: status_read_def checkStatusInstances_def not_found_env_def example_env_def)

section \<open>The claims\<close>

text \<open>
  C1. The type switch of the error formatter has four branches, chosen by the dynamic
  type of the cause: a provider error gives the type \<open>googleapi_\<close> followed by its code
  in decimal and its message as description; any other error gives \<open>internal_error\<close> and
  its \<open>Error()\<close> text; a string gives \<open>internal_error\<close> and the string; every other value
  gives \<open>unknown_error\<close> and its rendering by \<open>%v\<close>.
\<close>

theorem writeErrorResponse_classification:
  "error_fields (writeErrorResponse now code message (CauseError (GoogleapiError c m t))
       :: 'op response) =
     (Some (FieldString (''googleapi_'' @ Sprintf_d c)), Some (FieldString m)) \<and>
   error_fields (writeErrorResponse now code message (CauseError (OtherError s))
       :: 'op response) =
     (Some (FieldString ''internal_error''), Some (FieldString (Error (OtherError s)))) \<and>
   error_fields (writeErrorResponse now code message (CauseError (WrapError s e))
       :: 'op response) =
     (Some (FieldString ''internal_error''), Some (FieldString (Error (WrapError s e)))) \<and>
   error_fields (writeErrorResponse now code message (CauseString s) :: 'op response) =
     (Some (FieldString ''internal_error''), Some (FieldString s)) \<and>
   error_fields (writeErrorResponse now code message CauseNil :: 'op response) =
     (Some (FieldString ''unknown_error''), Some (FieldString ''<nil>'')) \<and>
   error_fields (writeErrorResponse now code message (CauseBool b) :: 'op response) =
     (Some (FieldString ''unknown_error''), Some (FieldString (Sprintf_v (CauseBool b)))) \<and>
   error_fields (writeErrorResponse now code message (CauseInt i) :: 'op response) =
     (Some (FieldString ''unknown_error''), Some (FieldString (Sprintf_d i)))"
  by (simp add: error_fields_def writeErrorResponse_other)

text \<open>
  C2. A \<open>POST\<close> request to \<open>/start\<close> or \<open>/stop\<close> that reaches the validation of the body
  (the handler has authenticated and read the status, which for \<open>/stop\<close> is \<open>RUNNABLE\<close>)
  and whose body is not valid JSON, or does not map \<open>ActivationPolicy\<close> to exactly the
  string \<open>ALWAYS\<close> or \<open>NEVER\<close>, is answered with status 400, and no patch call is made.
\<close>

theorem invalid_body_400:
  assumes "NewService env [auth] = None" and "status_read env = Returns st"
    and "accepted_policy env r = None" and "Method r = ''POST''"
  shows "responded_with (fst (startInstanceHandler env r)) 400 \<and>
    filter is_patch (snd (startInstanceHandler env r)) = [] \<and>
    (State st = ''RUNNABLE'' \<longrightarrow>
       responded_with (fst (stopInstancesHandler env r)) 400 \<and>
       filter is_patch (snd (stopInstancesHandler env r)) = [])"
proof -
  obtain message cause where
    "startInstanceHandler env r =
       (Responded (writeErrorResponse (Now env (fetch_trace env)) 400 message cause),
        fetch_trace env)"
    using startInstanceHandler_rejected [OF assms(4,1,2,3)] by blast
  moreover have "State st = ''RUNNABLE'' \<Longrightarrow>
      responded_with (fst (stopInstancesHandler env r)) 400 \<and>
      filter is_patch (snd (stopInstancesHandler env r)) = []"
  proof -
    assume "State st = ''RUNNABLE''"
    then obtain message cause where
      "stopInstancesHandler env r =
         (Responded (writeErrorResponse (Now env (fetch_trace env)) 400 message cause),
          fetch_trace env)"
      using stopInstancesHandler_rejected [OF assms(4,1,2,3)] by blast
    then show ?thesis by simp
  qed
  ultimately show ?thesis by simp
qed

theorem invalid_body_400_witness:
  "NewService (example_env ''RUNNABLE'') [auth] = None \<and>
   status_read (example_env ''RUNNABLE'') =
     Returns \<lparr>Name = ''db-main'', DatabaseVersion = ''POSTGRES_15'',
              Region = ''asia-southeast2'', State = ''RUNNABLE'', Tier = ''db-f1-micro''\<rparr> \<and>
   accepted_policy (example_env ''RUNNABLE'') (post (policy_body (quoted ''always''))) = None \<and>
   Method (post (policy_body (quoted ''always''))) = ''POST'' \<and>
   responded_with
     (fst (startInstanceHandler (example_env ''RUNNABLE'') (post (policy_body (quoted ''always'')))))
     400 \<and>
   filter is_patch
     (snd (startInstanceHandler (example_env ''RUNNABLE'') (post (policy_body (quoted ''always'')))))
     = [] \<and>
   responded_with
     (fst (stopInstancesHandler (example_env ''RUNNABLE'') (post (policy_body (quoted ''always'')))))
     400 \<and>
   filter is_patch
     (snd (stopInstancesHandler (example_env ''RUNNABLE'') (post (policy_body (quoted ''always'')))))
     = []"
proof -
  have a: "NewService (example_env ''RUNNABLE'') [auth] = None" by simp
  have m: "Method (post (policy_body (quoted ''always''))) = ''POST''" by (simp add: post_def)
  show ?thesis
    using invalid_body_400 [OF a example_status_read example_accepted_policy(3) m]
      a m example_status_read [of "''RUNNABLE''"] example_accepted_policy(3) [of "''RUNNABLE''"]
    by simp
qed

text \<open>
  C3, as stated: a \<open>POST\<close> request to \<open>/start\<close> or \<open>/stop\<close> whose body does not give an
  accepted policy is rejected before any call to the provider. It fails: with a provider
  that authenticates and reports a running instance, a request whose body is \<open>{}\<close> is
  rejected with status 400 after two authentications and the status read.
\<close>

theorem rejected_before_any_call_counterexample:
  "Method (post ''{}'') = ''POST'' \<and>
   accepted_policy (example_env ''RUNNABLE'') (post ''{}'') = None \<and>
   responded_with (fst (startInstanceHandler (example_env ''RUNNABLE'') (post ''{}''))) 400 \<and>
   snd (startInstanceHandler (example_env ''RUNNABLE'') (post ''{}'')) =
     [auth, auth, CallGet ''my-project'' ''db-main''] \<and>
   responded_with (fst (stopInstancesHandler (example_env ''RUNNABLE'') (post ''{}''))) 400 \<and>
   snd (stopInstancesHandler (example_env ''RUNNABLE'') (post ''{}'')) =
     [auth, auth, CallGet ''my-project'' ''db-main'']"
proof -
  have m: "Method (post ''{}'') = ''POST''" by (simp add: post_def)
  have a: "NewService (example_env ''RUNNABLE'') [auth] = None" by simp
  obtain message cause where
    "startInstanceHandler (example_env ''RUNNABLE'') (post ''{}'') =
       (Responded (writeErrorResponse (Now (example_env ''RUNNABLE'')
          (fetch_trace (example_env ''RUNNABLE''))) 400 message cause),
        fetch_trace (example_env ''RUNNABLE''))"
    using startInstanceHandler_rejected [OF m a example_status_read example_accepted_policy(1)]
    by blast
  moreover obtain message' cause' where
    "stopInstancesHandler (example_env ''RUNNABLE'') (post ''{}'') =
       (Responded (writeErrorResponse (Now (example_env ''RUNNABLE'')
          (fetch_trace (example_env ''RUNNABLE''))) 400 message' cause'),
        fetch_trace (example_env ''RUNNABLE''))"
    using stopInstancesHandler_rejected [OF m a example_status_read example_accepted_policy(1)]
    by auto
  ultimately show ?thesis
    using m by (simp add: example_accepted_policy)
qed

text \<open>
  C3, amended: a \<open>POST\<close> request to \<open>/start\<close> or \<open>/stop\<close> whose body does not give an
  accepted policy is never answered with status 200 and causes no patch call. The handler
  authenticates first, and reads the status when the authentication succeeds, before it
  looks at the body: the calls made are the authentication alone, the two
  authentications, or these and the status read.
\<close>

theorem rejected_before_patch:
  assumes "Method r = ''POST''" and "accepted_policy env r = None"
  shows "\<not> responded_with (fst (startInstanceHandler env r)) 200 \<and>
    filter is_patch (snd (startInstanceHandler env r)) = [] \<and>
    snd (startInstanceHandler env r) \<in> {[auth], [auth, auth], fetch_trace env} \<and>
    \<not> responded_with (fst (stopInstancesHandler env r)) 200 \<and>
    filter is_patch (snd (stopInstancesHandler env r)) = [] \<and>
    snd (stopInstancesHandler env r) \<in> {[auth], [auth, auth], fetch_trace env}"
proof (cases "NewService env [auth]")
  case (Some err)
  then show ?thesis
    using assms(1)
    by (simp add: startInstanceHandler_auth_failed stopInstancesHandler_auth_failed)
next
  case None
  have t: "status_trace env = [auth, auth] \<or> status_trace env = fetch_trace env"
    by (rule status_trace_cases)
  show ?thesis
  proof (cases "status_read env")
    case Panics
    then show ?thesis
      using assms(1) None status_read_Panics [OF Panics]
      by (simp add: startInstanceHandler_panics stopInstancesHandler_panics)
  next
    case (Fails err)
    then show ?thesis
      using assms(1) None t
      by (auto simp add: startInstanceHandler_fetch_failed stopInstancesHandler_fetch_failed)
  next
    case (Returns st)
    obtain message cause where start:
      "startInstanceHandler env r =
         (Responded (writeErrorResponse (Now env (fetch_trace env)) 400 message cause),
          fetch_trace env)"
      using startInstanceHandler_rejected [OF assms(1) None Returns assms(2)] by blast
    have "\<exists>message cause. stopInstancesHandler env r =
         (Responded (writeErrorResponse (Now env (fetch_trace env)) 400 message cause),
          fetch_trace env)"
    proof (cases "State st = ''RUNNABLE''")
      case True
      then show ?thesis
        using stopInstancesHandler_rejected [OF assms(1) None Returns assms(2)] by blast
    next
      case False
      then show ?thesis
        using stopInstancesHandler_not_runnable [OF assms(1) None Returns] by blast
    qed
    then obtain message' cause' where
      "stopInstancesHandler env r =
         (Responded (writeErrorResponse (Now env (fetch_trace env)) 400 message' cause'),
          fetch_trace env)"
      by blast
    with start show ?thesis by simp
  qed
qed

theorem rejected_before_patch_witness:
  "Method (post (policy_body ''true'')) = ''POST'' \<and>
   accepted_policy (example_env ''RUNNABLE'') (post (policy_body ''true'')) = None \<and>
   \<not> responded_with
       (fst (startInstanceHandler (example_env ''RUNNABLE'') (post (policy_body ''true'')))) 200 \<and>
   filter is_patch
     (snd (startInstanceHandler (example_env ''RUNNABLE'') (post (policy_body ''true'')))) = [] \<and>
   \<not> responded_with
       (fst (stopInstancesHandler (example_env ''RUNNABLE'') (post (policy_body ''true'')))) 200 \<and>
   filter is_patch
     (snd (stopInstancesHandler (example_env ''RUNNABLE'') (post (policy_body ''true'')))) = []"
proof -
  have m: "Method (post (policy_body ''true'')) = ''POST''" by (simp add: post_def)
  show ?thesis
    using rejected_before_patch [OF m example_accepted_policy(4), of "''RUNNABLE''"] m
      example_accepted_policy(4) [of "''RUNNABLE''"]
    by simp
qed

text \<open>
  C4. When a \<open>POST\<close> request to \<open>/stop\<close> has read a status whose state is not
  \<open>RUNNABLE\<close>, it is answered with status 400 and the message
  \<open>Instance currently in <state> state.\<close>, for every such state, and no patch call is made.
\<close>

theorem stop_requires_RUNNABLE:
  assumes "Method r = ''POST''" and "NewService env [auth] = None"
    and "status_read env = Returns st" and "State st \<noteq> ''RUNNABLE''"
  shows "responded_with (fst (stopInstancesHandler env r)) 400 \<and>
    outcome_field (fst (stopInstancesHandler env r)) ''message'' =
      Some (FieldString (''Instance currently in '' @ State st @ '' state.'')) \<and>
    snd (stopInstancesHandler env r) = fetch_trace env \<and>
    filter is_patch (snd (stopInstancesHandler env r)) = []"
  using assms by (simp add: stopInstancesHandler_not_runnable)

theorem stop_requires_RUNNABLE_witness:
  "Method (post (policy_body (quoted ''NEVER''))) = ''POST'' \<and>
   NewService (example_env ''STOPPED'') [auth] = None \<and>
   status_read (example_env ''STOPPED'') =
     Returns \<lparr>Name = ''db-main'', DatabaseVersion = ''POSTGRES_15'',
              Region = ''asia-southeast2'', State = ''STOPPED'', Tier = ''db-f1-micro''\<rparr> \<and>
   ''STOPPED'' \<noteq> ''RUNNABLE'' \<and>
   responded_with
     (fst (stopInstancesHandler (example_env ''STOPPED'') (post (policy_body (quoted ''NEVER'')))))
     400 \<and>
   outcome_field
     (fst (stopInstancesHandler (example_env ''STOPPED'') (post (policy_body (quoted ''NEVER'')))))
     ''message'' = Some (FieldString ''Instance currently in STOPPED state.'') \<and>
   filter is_patch
     (snd (stopInstancesHandler (example_env ''STOPPED'') (post (policy_body (quoted ''NEVER'')))))
     = []"
proof -
  have s: "status_read (example_env ''STOPPED'') =
     Returns \<lparr>Name = ''db-main'', DatabaseVersion = ''POSTGRES_15'',
              Region = ''asia-southeast2'', State = ''STOPPED'', Tier = ''db-f1-micro''\<rparr>"
    by (simp add: status_read_def checkStatusInstances_def example_env_def example_instance_def)
  have m: "Method (post (policy_body (quoted ''NEVER''))) = ''POST''"
    by (simp add: post_def)
  have a: "NewService (example_env ''STOPPED'') [auth] = None"
    by (simp add: example_env_def)
  show ?thesis
    using stop_requires_RUNNABLE [OF m a s] s m a by simp
qed

text \<open>
  C5. A request to \<open>/start\<close> or \<open>/stop\<close> whose method is not \<open>POST\<close>, and a request to
  \<open>/check\<close> whose method is not \<open>GET\<close>, is answered with status 405, and the handler
  makes no call to the provider: neither authentication, nor status read, nor patch.
\<close>

theorem wrong_method_405:
  "(Method r1 \<noteq> ''POST'' \<longrightarrow>
      responded_with (fst (startInstanceHandler env r1)) 405 \<and>
      snd (startInstanceHandler env r1) = []) \<and>
   (Method r2 \<noteq> ''POST'' \<longrightarrow>
      responded_with (fst (stopInstancesHandler env r2)) 405 \<and>
      snd (stopInstancesHandler env r2) = []) \<and>
   (Method r3 \<noteq> ''GET'' \<longrightarrow>
      responded_with (fst (checkInstancesHandler env r3)) 405 \<and>
      snd (checkInstancesHandler env r3) = [])"
  by (simp add: startInstanceHandler_wrong_method stopInstancesHandler_wrong_method
      checkInstancesHandler_wrong_method)

theorem wrong_method_405_witness:
  "Method get \<noteq> ''POST'' \<and> Method (post []) \<noteq> ''GET'' \<and>
   responded_with (fst (startInstanceHandler (example_env ''RUNNABLE'') get)) 405 \<and>
   snd (startInstanceHandler (example_env ''RUNNABLE'') get) = [] \<and>
   responded_with (fst (stopInstancesHandler (example_env ''RUNNABLE'') get)) 405 \<and>
   snd (stopInstancesHandler (example_env ''RUNNABLE'') get) = [] \<and>
   responded_with (fst (checkInstancesHandler (example_env ''RUNNABLE'') (post []))) 405 \<and>
   snd (checkInstancesHandler (example_env ''RUNNABLE'') (post [])) = []"
  using wrong_method_405 [of get "example_env ''RUNNABLE''" get "post []"]
  by (simp add: get_def post_def)

text \<open>
  C6, as stated: the data of a successful \<open>/check\<close> is an object with exactly the members
  \<open>name\<close>, \<open>databaseVersion\<close>, \<open>region\<close>, \<open>state\<close> and \<open>tier\<close>. It fails on the name of
  the second member: the struct tag of \<open>DatabaseVersion\<close> is \<open>database_version\<close>, so the
  object has a member of that name and none named \<open>databaseVersion\<close>.
\<close>

theorem check_data_counterexample:
  "Method get = ''GET'' \<and>
   responded_with (fst (checkInstancesHandler (example_env ''RUNNABLE'') get)) 200 \<and>
   data_members (fst (checkInstancesHandler (example_env ''RUNNABLE'') get)) =
     Some [(''name'', ''db-main''), (''database_version'', ''POSTGRES_15''),
           (''region'', ''asia-southeast2''), (''state'', ''RUNNABLE''),
           (''tier'', ''db-f1-micro'')] \<and>
   data_member (fst (checkInstancesHandler (example_env ''RUNNABLE'') get))
     ''databaseVersion'' = None \<and>
   data_member (fst (checkInstancesHandler (example_env ''RUNNABLE'') get))
     ''database_version'' = Some ''POSTGRES_15''"
proof -
  have g: "Method get = ''GET''" by (simp add: get_def)
  have a: "NewService (example_env ''RUNNABLE'') [auth] = None" by simp
  show ?thesis
    using g
    by (simp add: checkInstancesHandler_fetched [OF g a example_status_read]
        data_member_def data_members_def json_SQLInstancesData_def)
qed

text \<open>
  C6, amended: a \<open>GET\<close> request to \<open>/check\<close> for which the authentications and the status
  read succeed is answered with status 200, and its data is an object with exactly five
  members, \<open>name\<close>, \<open>database_version\<close>, \<open>region\<close>, \<open>state\<close> and \<open>tier\<close>, holding the
  name, the database version, the region, the state and the tier of the instance read.
  A \<open>POST\<close> request to \<open>/start\<close> or \<open>/stop\<close> whose patch succeeds is answered with status
  200 and, as data, the whole answer of the provider to the patch.
\<close>

theorem success_data:
  "(Method r3 = ''GET'' \<and> NewService env [auth] = None \<and> NewService env [auth, auth] = None \<and>
    InstancesGet env (fetch_trace env) = Inr instance \<and>
    Instance_Settings instance = Some settings \<longrightarrow>
      responded_with (fst (checkInstancesHandler env r3)) 200 \<and>
      data_members (fst (checkInstancesHandler env r3)) =
        Some [(''name'', Instance_Name instance),
              (''database_version'', Instance_DatabaseVersion instance),
              (''region'', Instance_Region instance), (''state'', Instance_State instance),
              (''tier'', Settings_Tier settings)]) \<and>
   (Method r = ''POST'' \<and> NewService env [auth] = None \<and> status_read env = Returns st \<and>
    accepted_policy env r = Some p \<and>
    InstancesPatch env (fetch_trace env @ [CallPatch (projectID env) (instanceID env) p]) =
      Inr operation \<longrightarrow>
      responded_with (fst (startInstanceHandler env r)) 200 \<and>
      outcome_field (fst (startInstanceHandler env r)) ''data'' =
        Some (FieldOperation operation) \<and>
      (State st = ''RUNNABLE'' \<longrightarrow>
         responded_with (fst (stopInstancesHandler env r)) 200 \<and>
         outcome_field (fst (stopInstancesHandler env r)) ''data'' =
           Some (FieldOperation operation)))"
proof (intro conjI impI)
  assume a: "Method r3 = ''GET'' \<and> NewService env [auth] = None \<and>
    NewService env [auth, auth] = None \<and> InstancesGet env (fetch_trace env) = Inr instance \<and>
    Instance_Settings instance = Some settings"
  then have s: "status_read env = Returns \<lparr>Name = Instance_Name instance,
                DatabaseVersion = Instance_DatabaseVersion instance,
                Region = Instance_Region instance, State = Instance_State instance,
                Tier = Settings_Tier settings\<rparr>"
    by (intro status_read_fetched) simp_all
  from a have h: "Method r3 = ''GET''" "NewService env [auth] = None" by simp_all
  show "responded_with (fst (checkInstancesHandler env r3)) 200"
    by (simp add: checkInstancesHandler_fetched [OF h s])
  show "data_members (fst (checkInstancesHandler env r3)) =
        Some [(''name'', Instance_Name instance),
              (''database_version'', Instance_DatabaseVersion instance),
              (''region'', Instance_Region instance), (''state'', Instance_State instance),
              (''tier'', Settings_Tier settings)]"
    by (simp add: checkInstancesHandler_fetched [OF h s] data_members_def
        json_SQLInstancesData_def)
next
  assume a: "Method r = ''POST'' \<and> NewService env [auth] = None \<and>
    status_read env = Returns st \<and> accepted_policy env r = Some p \<and>
    InstancesPatch env (fetch_trace env @ [CallPatch (projectID env) (instanceID env) p]) =
      Inr operation"
  then have h: "Method r = ''POST''" "NewService env [auth] = None"
    "status_read env = Returns st" "accepted_policy env r = Some p"
    by simp_all
  from a have p: "InstancesPatch env
      (fetch_trace env @ [CallPatch (projectID env) (instanceID env) p]) = Inr operation"
    by simp
  show "responded_with (fst (startInstanceHandler env r)) 200"
    using p by (simp add: startInstanceHandler_accepted [OF h])
  show "outcome_field (fst (startInstanceHandler env r)) ''data'' =
        Some (FieldOperation operation)"
    using p by (simp add: startInstanceHandler_accepted [OF h])
  {
    assume run: "State st = ''RUNNABLE''"
    show "responded_with (fst (stopInstancesHandler env r)) 200"
      using p by (simp add: stopInstancesHandler_accepted [OF h run])
    show "outcome_field (fst (stopInstancesHandler env r)) ''data'' =
        Some (FieldOperation operation)"
      using p by (simp add: stopInstancesHandler_accepted [OF h run])
  }
qed

theorem success_data_witness:
  "Method get = ''GET'' \<and> NewService (example_env ''RUNNABLE'') [auth] = None \<and>
   NewService (example_env ''RUNNABLE'') [auth, auth] = None \<and>
   InstancesGet (example_env ''RUNNABLE'') (fetch_trace (example_env ''RUNNABLE'')) =
     Inr (example_instance ''RUNNABLE'') \<and>
   Instance_Settings (example_instance ''RUNNABLE'') = Some \<lparr>Settings_Tier = ''db-f1-micro''\<rparr> \<and>
   responded_with (fst (checkInstancesHandler (example_env ''RUNNABLE'') get)) 200 \<and>
   data_members (fst (checkInstancesHandler (example_env ''RUNNABLE'') get)) =
     Some [(''name'', ''db-main''), (''database_version'', ''POSTGRES_15''),
           (''region'', ''asia-southeast2''), (''state'', ''RUNNABLE''),
           (''tier'', ''db-f1-micro'')] \<and>
   Method (post (policy_body (quoted ''NEVER''))) = ''POST'' \<and>
   status_read (example_env ''RUNNABLE'') =
     Returns \<lparr>Name = ''db-main'', DatabaseVersion = ''POSTGRES_15'',
              Region = ''asia-southeast2'', State = ''RUNNABLE'', Tier = ''db-f1-micro''\<rparr> \<and>
   accepted_policy (example_env ''RUNNABLE'') (post (policy_body (quoted ''NEVER''))) =
     Some ''NEVER'' \<and>
   InstancesPatch (example_env ''RUNNABLE'')
     (fetch_trace (example_env ''RUNNABLE'') @ [CallPatch ''my-project'' ''db-main'' ''NEVER'']) =
     Inr ''operation-1'' \<and>
   responded_with
     (fst (startInstanceHandler (example_env ''RUNNABLE'') (post (policy_body (quoted ''NEVER'')))))
     200 \<and>
   outcome_field
     (fst (startInstanceHandler (example_env ''RUNNABLE'') (post (policy_body (quoted ''NEVER'')))))
     ''data'' = Some (FieldOperation ''operation-1'') \<and>
   responded_with
     (fst (stopInstancesHandler (example_env ''RUNNABLE'') (post (policy_body (quoted ''NEVER'')))))
     200 \<and>
   outcome_field
     (fst (stopInstancesHandler (example_env ''RUNNABLE'') (post (policy_body (quoted ''NEVER'')))))
     ''data'' = Some (FieldOperation ''operation-1'')"
  using success_data [of get "example_env ''RUNNABLE''" "example_instance ''RUNNABLE''"
      "\<lparr>Settings_Tier = ''db-f1-micro''\<rparr>" "post (policy_body (quoted ''NEVER''))"
      "\<lparr>Name = ''db-main'', DatabaseVersion = ''POSTGRES_15'',
              Region = ''asia-southeast2'', State = ''RUNNABLE'', Tier = ''db-f1-micro''\<rparr>"
      "''NEVER''" "''operation-1''"]
    example_status_read [of "''RUNNABLE''"] example_accepted_policy(6) [of "''RUNNABLE''"]
  by (simp add: get_def post_def example_instance_def)

text \<open>
  C7. Every response of the three handlers, success or error, carries a timestamp that
  is a date and time of RFC 3339, and a \<open>status_text\<close> that is the reason phrase of its
  \<open>status_code\<close>, which is the status of the response. The clock is taken to read a
  date of the civil calendar in the years 0 to 9999.
\<close>

theorem envelope_timestamp_and_reason:
  assumes "\<forall>t. valid_time (Now env t)"
  shows "outcome_ok (fst (startInstanceHandler env r1)) \<and>
    outcome_ok (fst (stopInstancesHandler env r2)) \<and>
    outcome_ok (fst (checkInstancesHandler env r3))"
  using assms
  by (simp add: startInstanceHandler_outcome_ok stopInstancesHandler_outcome_ok
      checkInstancesHandler_outcome_ok)

theorem envelope_timestamp_and_reason_witness:
  "(\<forall>t. valid_time (Now (example_env ''STOPPED'') t)) \<and>
   outcome_ok (fst (startInstanceHandler (example_env ''STOPPED'')
     (post (policy_body (quoted ''ALWAYS''))))) \<and>
   outcome_ok (fst (stopInstancesHandler (example_env ''STOPPED'')
     (post (policy_body (quoted ''NEVER''))))) \<and>
   outcome_ok (fst (checkInstancesHandler (example_env ''STOPPED'') get)) \<and>
   fst (checkInstancesHandler (example_env ''STOPPED'') get) \<noteq> Panicked \<and>
   outcome_field (fst (stopInstancesHandler (example_env ''STOPPED'')
     (post (policy_body (quoted ''NEVER''))))) ''status_text'' =
     Some (FieldString ''Bad Request'')"
proof -
  have v: "\<forall>t. valid_time (Now (example_env ''STOPPED'') t)"
    by (simp add: example_time_valid)
  have m: "Method (post (policy_body (quoted ''NEVER''))) = ''POST''" by (simp add: post_def)
  have g: "Method get = ''GET''" by (simp add: get_def)
  have a: "NewService (example_env ''STOPPED'') [auth] = None" by simp
  have n: "State \<lparr>Name = ''db-main'', DatabaseVersion = ''POSTGRES_15'',
              Region = ''asia-southeast2'', State = ''STOPPED'',
              Tier = ''db-f1-micro''\<rparr> \<noteq> ''RUNNABLE''"
    by simp
  show ?thesis
    using envelope_timestamp_and_reason [OF v, of "post (policy_body (quoted ''ALWAYS''))"
        "post (policy_body (quoted ''NEVER''))" get] v
    by (simp add: stopInstancesHandler_not_runnable [OF m a example_status_read n]
        checkInstancesHandler_fetched [OF g a example_status_read] StatusText_used)
qed

text \<open>
  C8. A \<open>POST\<close> request to \<open>/start\<close> for which the authentication and the status read
  succeed goes on to the validation of the body whatever state was read: with an
  accepted policy the patch call is issued with that policy and the answer is 200 or 500,
  as the patch succeeds or fails; otherwise the answer is 400 with one of the messages of
  the validation. The state read does not occur in the outcome: unlike \<open>/stop\<close>, no state
  makes \<open>/start\<close> reject.
\<close>

theorem start_ignores_state:
  assumes "Method r = ''POST''" and "NewService env [auth] = None"
    and "status_read env = Returns st"
  shows "(accepted_policy env r = Some p \<longrightarrow>
      snd (startInstanceHandler env r) =
        fetch_trace env @ [CallPatch (projectID env) (instanceID env) p] \<and>
      (responded_with (fst (startInstanceHandler env r)) 200 \<or>
       responded_with (fst (startInstanceHandler env r)) 500) \<and>
      responded_with (fst (startInstanceHandler env r)) 200 =
        (\<exists>operation. InstancesPatch env (snd (startInstanceHandler env r)) = Inr operation)) \<and>
    (accepted_policy env r = None \<longrightarrow>
      responded_with (fst (startInstanceHandler env r)) 400 \<and>
      snd (startInstanceHandler env r) = fetch_trace env \<and>
      (\<exists>message \<in> validation_messages.
         outcome_field (fst (startInstanceHandler env r)) ''message'' =
           Some (FieldString message)))"
proof (intro conjI impI)
  assume p: "accepted_policy env r = Some p"
  note eq = startInstanceHandler_accepted [OF assms p]
  show "snd (startInstanceHandler env r) =
      fetch_trace env @ [CallPatch (projectID env) (instanceID env) p]"
    unfolding eq by (simp split: sum.split)
  show "responded_with (fst (startInstanceHandler env r)) 200 \<or>
      responded_with (fst (startInstanceHandler env r)) 500"
    unfolding eq by (simp split: sum.split)
  show "responded_with (fst (startInstanceHandler env r)) 200 =
      (\<exists>operation. InstancesPatch env (snd (startInstanceHandler env r)) = Inr operation)"
    unfolding eq by (simp split: sum.split)
next
  assume n: "accepted_policy env r = None"
  obtain message cause where m: "message \<in> validation_messages"
    and eq: "startInstanceHandler env r =
       (Responded (writeErrorResponse (Now env (fetch_trace env)) 400 message cause),
        fetch_trace env)"
    using startInstanceHandler_rejected [OF assms n] by blast
  show "responded_with (fst (startInstanceHandler env r)) 400"
    unfolding eq by simp
  show "snd (startInstanceHandler env r) = fetch_trace env"
    unfolding eq by simp
  show "\<exists>message \<in> validation_messages.
      outcome_field (fst (startInstanceHandler env r)) ''message'' = Some (FieldString message)"
    unfolding eq using m by auto
qed

theorem start_ignores_state_witness:
  "Method (post (policy_body (quoted ''ALWAYS''))) = ''POST'' \<and>
   NewService (example_env ''STOPPED'') [auth] = None \<and>
   status_read (example_env ''STOPPED'') =
     Returns \<lparr>Name = ''db-main'', DatabaseVersion = ''POSTGRES_15'',
              Region = ''asia-southeast2'', State = ''STOPPED'', Tier = ''db-f1-micro''\<rparr> \<and>
   accepted_policy (example_env ''STOPPED'') (post (policy_body (quoted ''ALWAYS''))) =
     Some ''ALWAYS'' \<and>
   snd (startInstanceHandler (example_env ''STOPPED'') (post (policy_body (quoted ''ALWAYS'')))) =
     [auth, auth, CallGet ''my-project'' ''db-main'',
      CallPatch ''my-project'' ''db-main'' ''ALWAYS''] \<and>
   responded_with
     (fst (startInstanceHandler (example_env ''STOPPED'') (post (policy_body (quoted ''ALWAYS'')))))
     200"
proof -
  have m: "Method (post (policy_body (quoted ''ALWAYS''))) = ''POST''" by (simp add: post_def)
  have a: "NewService (example_env ''STOPPED'') [auth] = None" by simp
  show ?thesis
    using start_ignores_state [OF m a example_status_read, of "''ALWAYS''"] m
      example_status_read [of "''STOPPED''"] example_accepted_policy(5) [of "''STOPPED''"]
    by simp
qed

text \<open>
  C9. When the authentication step of a handler fails, a request with the right method is
  answered with status 401; the error type is \<open>googleapi_\<close> and the code when the failure
  is a provider error, and \<open>internal_error\<close> otherwise; the failed authentication is the
  only call made, so neither the status read nor the patch occurs.
\<close>

theorem auth_failure_401:
  assumes "NewService env [auth] = Some err"
  shows
  "(Method r1 = ''POST'' \<longrightarrow>
      responded_with (fst (startInstanceHandler env r1)) 401 \<and>
      snd (startInstanceHandler env r1) = [auth] \<and>
      outcome_field (fst (startInstanceHandler env r1)) ''error_type'' =
        Some (FieldString (case err of GoogleapiError c m t \<Rightarrow> ''googleapi_'' @ Sprintf_d c
                                     | _ \<Rightarrow> ''internal_error''))) \<and>
   (Method r2 = ''POST'' \<longrightarrow>
      responded_with (fst (stopInstancesHandler env r2)) 401 \<and>
      snd (stopInstancesHandler env r2) = [auth] \<and>
      outcome_field (fst (stopInstancesHandler env r2)) ''error_type'' =
        Some (FieldString (case err of GoogleapiError c m t \<Rightarrow> ''googleapi_'' @ Sprintf_d c
                                     | _ \<Rightarrow> ''internal_error''))) \<and>
   (Method r3 = ''GET'' \<longrightarrow>
      responded_with (fst (checkInstancesHandler env r3)) 401 \<and>
      snd (checkInstancesHandler env r3) = [auth] \<and>
      outcome_field (fst (checkInstancesHandler env r3)) ''error_type'' =
        Some (FieldString (case err of GoogleapiError c m t \<Rightarrow> ''googleapi_'' @ Sprintf_d c
                                     | _ \<Rightarrow> ''internal_error'')))"
  using assms
  by (cases err)
    (simp_all add: startInstanceHandler_auth_failed stopInstancesHandler_auth_failed
      checkInstancesHandler_auth_failed)

theorem auth_failure_401_witness:
  "NewService (no_credentials_env) [auth] = Some no_credentials \<and>
   Method (post ''{}'') = ''POST'' \<and> Method get = ''GET'' \<and>
   responded_with (fst (startInstanceHandler no_credentials_env (post ''{}''))) 401 \<and>
   snd (startInstanceHandler no_credentials_env (post ''{}'')) = [auth] \<and>
   outcome_field (fst (startInstanceHandler no_credentials_env (post ''{}''))) ''error_type'' =
     Some (FieldString ''internal_error'') \<and>
   responded_with (fst (stopInstancesHandler no_credentials_env (post ''{}''))) 401 \<and>
   snd (stopInstancesHandler no_credentials_env (post ''{}'')) = [auth] \<and>
   responded_with (fst (checkInstancesHandler no_credentials_env get)) 401 \<and>
   snd (checkInstancesHandler no_credentials_env get) = [auth]"
  using auth_failure_401 [of no_credentials_env no_credentials "post ''{}''" "post ''{}''" get]
  by (simp add: no_credentials_env_def no_credentials_def example_env_def get_def post_def)

text \<open>
  C10. When the status fetch of a handler fails, the answer is 500 with the error type
  \<open>internal_error\<close> and, as description, the message of the wrapped failure, whatever the
  type of the underlying cause: the handlers pass the message of the error, a string, to
  the formatter, so a provider error met while reading the status is never reported as
  \<open>googleapi_\<close> and a code.
\<close>

theorem fetch_failure_internal_error:
  assumes "NewService env [auth] = None" and "status_read env = Fails err"
  shows "(Method r1 = ''POST'' \<longrightarrow>
      responded_with (fst (startInstanceHandler env r1)) 500 \<and>
      error_fields_of (fst (startInstanceHandler env r1)) =
        (Some (FieldString ''internal_error''), Some (FieldString (Error err)))) \<and>
    (Method r2 = ''POST'' \<longrightarrow>
      responded_with (fst (stopInstancesHandler env r2)) 500 \<and>
      error_fields_of (fst (stopInstancesHandler env r2)) =
        (Some (FieldString ''internal_error''), Some (FieldString (Error err)))) \<and>
    (Method r3 = ''GET'' \<longrightarrow>
      responded_with (fst (checkInstancesHandler env r3)) 500 \<and>
      error_fields_of (fst (checkInstancesHandler env r3)) =
        (Some (FieldString ''internal_error''), Some (FieldString (Error err)))) \<and>
    (NewService env [auth, auth] = Some cause \<longrightarrow>
      Error err = ''failed to find Service Account: '' @ Error cause) \<and>
    (NewService env [auth, auth] = None \<and> InstancesGet env (fetch_trace env) = Inl cause \<longrightarrow>
      Error err = ''failed to get instance details, instances not found.: '' @ Error cause)"
proof -
  have "NewService env [auth, auth] = Some cause \<Longrightarrow>
      Error err = ''failed to find Service Account: '' @ Error cause"
    using status_read_Fails [OF assms(2)] by (auto simp add: Errorf_w_def)
  moreover have "NewService env [auth, auth] = None \<Longrightarrow>
      InstancesGet env (fetch_trace env) = Inl cause \<Longrightarrow>
      Error err = ''failed to get instance details, instances not found.: '' @ Error cause"
    using status_read_Fails [OF assms(2)] by (auto simp add: Errorf_w_def)
  ultimately show ?thesis
    using assms
    by (simp add: startInstanceHandler_fetch_failed stopInstancesHandler_fetch_failed
        checkInstancesHandler_fetch_failed error_fields_def)
qed

theorem fetch_failure_internal_error_witness:
  "NewService not_found_env [auth] = None \<and>
   status_read not_found_env =
     Fails (Errorf_w ''failed to get instance details, instances not found.: '' not_found) \<and>
   Method (post (policy_body (quoted ''ALWAYS''))) = ''POST'' \<and> Method get = ''GET'' \<and>
   NewService not_found_env [auth, auth] = None \<and>
   InstancesGet not_found_env (fetch_trace not_found_env) =
     Inl (GoogleapiError 404 ''The Cloud SQL instance does not exist.''
       ''googleapi: Error 404: The Cloud SQL instance does not exist., instanceDoesNotExist'') \<and>
   responded_with
     (fst (startInstanceHandler not_found_env (post (policy_body (quoted ''ALWAYS''))))) 500 \<and>
   error_fields_of
     (fst (startInstanceHandler not_found_env (post (policy_body (quoted ''ALWAYS''))))) =
     (Some (FieldString ''internal_error''),
      Some (FieldString (''failed to get instance details, instances not found.: '' @
        ''googleapi: Error 404: The Cloud SQL instance does not exist., instanceDoesNotExist''))) \<and>
   responded_with
     (fst (stopInstancesHandler not_found_env (post (policy_body (quoted ''ALWAYS''))))) 500 \<and>
   responded_with (fst (checkInstancesHandler not_found_env get)) 500 \<and>
   error_fields_of (fst (checkInstancesHandler not_found_env get)) =
     (Some (FieldString ''internal_error''),
      Some (FieldString (''failed to get instance details, instances not found.: '' @
        ''googleapi: Error 404: The Cloud SQL instance does not exist., instanceDoesNotExist'')))"
proof -
  have a: "NewService not_found_env [auth] = None"
    by (simp add: not_found_env_def example_env_def)
  show ?thesis
    using fetch_failure_internal_error [OF a not_found_status_read,
        of "post (policy_body (quoted ''ALWAYS''))" "post (policy_body (quoted ''ALWAYS''))" get
        not_found]
      not_found_status_read
    by (simp add: post_def get_def not_found_env_def example_env_def not_found_def Errorf_w_def)
qed

end
